theory Spec2Isabelle
  imports Complex_Main "HOL-Library.AList" "HOL-Library.Multiset"
begin

section \<open>JavaScript helpers shared by the services\<close>

text \<open>
  \<^verbatim>\<open>String.prototype.split(sep)\<close> for a one-character separator: the pieces between the
  occurrences of the separator, empty pieces kept, so the result is never empty
  (\<^verbatim>\<open>''.split('-')\<close> is \<^verbatim>\<open>['']\<close>).
\<close>

fun js_split :: "char \<Rightarrow> string \<Rightarrow> string list" where
  "js_split sep [] = [[]]"
| "js_split sep (c # cs) =
     (if c = sep then [] # js_split sep cs
      else (case js_split sep cs of
              [] \<Rightarrow> [[c]]
            | p # ps \<Rightarrow> (c # p) # ps))"

text \<open>\<^verbatim>\<open>Array.prototype.join(sep)\<close> on an array of strings.\<close>

fun js_join :: "string \<Rightarrow> string list \<Rightarrow> string" where
  "js_join sep [] = []"
| "js_join sep [p] = p"
| "js_join sep (p # q # ps) = p @ sep @ js_join sep (q # ps)"

text \<open>
  \<^verbatim>\<open>Math.round\<close>: the nearest integer, a tie going up. \<^verbatim>\<open>Math.max(0, Math.min(100, x))\<close>
  is written with \<open>max\<close> and \<open>min\<close> where the source has it.
\<close>

definition math_round :: "real \<Rightarrow> int" where
  "math_round x = \<lfloor>x + 1 / 2\<rfloor>"

section \<open>InspectionService: the inspection form and its grading\<close>

text \<open>
  A JavaScript string as its UTF-16 code units, for a string whose characters beyond
  Latin-1 matter; \<open>js_str\<close> gives the units of a string of bytes.
\<close>

type_synonym js_string = "nat list"

definition js_str :: "string \<Rightarrow> js_string" where
  "js_str s = map of_char s"

text \<open>
  The form object the inspection screen passes to \<^verbatim>\<open>submitInspection\<close>. The measurement
  fields are the text of the form's inputs. \<open>insp_location\<close> is absent from the form
  (\<open>None\<close> is \<^verbatim>\<open>undefined\<close>). The inspector's name is kept by its code units, since
  \<^verbatim>\<open>btoa\<close> is applied to it; the other strings are only compared and copied.
\<close>

record visual_check =
  cracks :: bool
  corrosion :: bool
  deformation :: bool
  surfaceDamage :: bool

record dimensional_check =
  dim_length :: string
  dim_width :: string
  dim_height :: string
  tolerance :: string

record material_check =
  hardness :: string
  tensileStrength :: string
  chemicalComposition :: string

record functional_check =
  fitment :: string
  performance :: string

record inspection_data =
  qrCode :: string
  inspectorName :: js_string
  inspectionType :: string
  insp_location :: "string option"
  visualCheck :: visual_check
  dimensionalCheck :: dimensional_check
  materialCheck :: material_check
  functionalCheck :: functional_check
  overallGrade :: string
  remarks :: string
  recommendations :: "string list"
  photos :: "string list"

text \<open>\<^verbatim>\<open>Object.values(data.visualCheck)\<close>: the four flags of the form, in key order.\<close>

definition visual_values :: "visual_check \<Rightarrow> bool list" where
  "visual_values v = [cracks v, corrosion v, deformation v, surfaceDamage v]"

definition visualDefects :: "inspection_data \<Rightarrow> nat" where
  "visualDefects d = length (filter (\<lambda>v. v) (visual_values (visualCheck d)))"

text \<open>\<^verbatim>\<open>calculateQualityScore\<close>: 100 less the deductions, clamped by the last line.\<close>

definition calculateQualityScore :: "inspection_data \<Rightarrow> int" where
  "calculateQualityScore d =
     (let score = 100;
          score = score - int (visualDefects d) * 10;
          score = (if tolerance (dimensionalCheck d) = ''marginal'' then score - 5
                   else if tolerance (dimensionalCheck d) = ''outside'' then score - 15
                   else score);
          score = (if tensileStrength (materialCheck d) = ''fail'' then score - 20 else score);
          score = (if chemicalComposition (materialCheck d) = ''fail'' then score - 15 else score);
          score = (if performance (functionalCheck d) = ''poor'' then score - 25
                   else if performance (functionalCheck d) = ''acceptable'' then score - 10
                   else score)
      in max 0 (min 100 score))"

section \<open>AIService: the base performance score\<close>

record inspection_record =
  ir_date :: string
  ir_type :: string
  ir_inspector :: string
  ir_result :: string
  ir_grade :: string
  ir_remarks :: string

text \<open>
  The fields of \<^verbatim>\<open>fittingData\<close> that \<^verbatim>\<open>calculateBaseScore\<close> reads. \<open>inspectionHistory\<close> is
  \<open>None\<close> when the property is missing (the \<^verbatim>\<open>if (fittingData.inspectionHistory)\<close> test).
\<close>

record fitting_data =
  supplyDate :: string
  qualityGrade :: string
  inspectionHistory :: "inspection_record list option"

text \<open>
  \<^verbatim>\<open>calculateAge\<close>. The \<^verbatim>\<open>Date\<close> constructor is the platform's: \<open>dateParse\<close> gives the
  milliseconds of the date a string denotes, \<open>None\<close> for an invalid date, and \<open>now\<close> is the
  clock. An invalid date makes the age \<^verbatim>\<open>NaN\<close>, here \<open>None\<close>.
\<close>

definition calculateAge :: "(string \<Rightarrow> int option) \<Rightarrow> int \<Rightarrow> string \<Rightarrow> int option" where
  "calculateAge dateParse now sd =
     (case dateParse (js_join ''-'' (rev (js_split CHR ''/'' sd))) of
        None \<Rightarrow> None
      | Some supply \<Rightarrow> Some ((now - supply) div (1000 * 60 * 60 * 24)))"

text \<open>\<^verbatim>\<open>ageInDays > n\<close>: false when the age is \<^verbatim>\<open>NaN\<close>.\<close>

definition age_gt :: "int option \<Rightarrow> int \<Rightarrow> bool" where
  "age_gt a n = (case a of None \<Rightarrow> False | Some k \<Rightarrow> k > n)"

text \<open>
  \<^verbatim>\<open>calculateBaseScore\<close>. The source computes in doubles; the score is kept here as a real
  number, which differs from the double only in the rounding of the pass-rate term.
\<close>

definition calculateBaseScore :: "(string \<Rightarrow> int option) \<Rightarrow> int \<Rightarrow> fitting_data \<Rightarrow> int" where
  "calculateBaseScore dateParse now fd =
     (let score = (85 :: real);
          ageInDays = calculateAge dateParse now (supplyDate fd);
          score = (if age_gt ageInDays 365 then score - 5 else score);
          score = (if age_gt ageInDays 730 then score - 10 else score);
          score = (if qualityGrade fd = ''A'' then score + 10
                   else if qualityGrade fd = ''B'' then score + 5
                   else if qualityGrade fd = ''C'' then score - 5
                   else score);
          score = (case inspectionHistory fd of
                     None \<Rightarrow> score
                   | Some h \<Rightarrow>
                       (let passedInspections = length (filter (\<lambda>i. ir_result i = ''Passed'') h);
                            totalInspections = length h
                        in if totalInspections > 0
                           then score + ((real passedInspections / real totalInspections) * 100 - 80) * 0.2
                           else score))
      in max 0 (min 100 (math_round score)))"

section \<open>The platform: AsyncStorage faults and the console\<close>

text \<open>
  \<^verbatim>\<open>AsyncStorage\<close> is the durable key-value store. A call on it may reject; which calls do
  is the environment's choice, given by three predicates on the key. What a key holds is
  kept by each service's world in the shape the service writes there
  (\<^verbatim>\<open>JSON.parse(JSON.stringify(v))\<close> is taken to give \<open>v\<close> back). \<open>console\<close> collects the
  message prefixes passed to \<^verbatim>\<open>console.error\<close>, \<^verbatim>\<open>console.warn\<close> and \<^verbatim>\<open>console.log\<close>,
  in order.
\<close>

datatype js_error = Error string

record platform =
  getFails :: "string \<Rightarrow> bool"
  setFails :: "string \<Rightarrow> bool"
  removeFails :: "string \<Rightarrow> bool"
  console :: "string list"

definition console_log :: "string \<Rightarrow> 'a platform_scheme \<Rightarrow> 'a platform_scheme" where
  "console_log msg w = w\<lparr>console := console w @ [msg]\<rparr>"

section \<open>TrackingService\<close>

record scan_data =
  sd_id :: string
  sd_fittingId :: string
  sd_location :: "string option"
  sd_userId :: string
  sd_type :: "string option"

text \<open>
  The entry \<^verbatim>\<open>trackScan\<close> builds. \<open>te_timestamp\<close> is the creation time in milliseconds (the
  source keeps its ISO string and reads it back with \<^verbatim>\<open>new Date\<close>). Of \<^verbatim>\<open>metadata\<close> the scan
  type and the \<^verbatim>\<open>online\<close> flag are kept; \<^verbatim>\<open>deviceInfo\<close> is left out.
\<close>

record tracking_entry =
  te_id :: string
  te_scanId :: string
  te_fittingId :: string
  te_timestamp :: int
  te_location :: "string option"
  te_userId :: string
  te_status :: string
  te_scanType :: string
  te_online :: bool

text \<open>
  The service's two fields, and the keys of the store it uses: \<open>st_items\<close> maps a key to
  the entry record stored under it, and \<open>st_master\<close> is the id list stored under
  \<^verbatim>\<open>tracking_master_list\<close> (\<open>None\<close> when the key holds no list). The key of an entry is
  \<^verbatim>\<open>tracking_<id>\<close>, so the entry whose id is \<^verbatim>\<open>master_list\<close> has the key of the master list:
  a record written there replaces the list, and the list written there replaces the
  record. \<open>serverCalls\<close> records the ids passed to \<^verbatim>\<open>simulateServerSync\<close>, in order.
\<close>

record tracking_world = platform +
  trackingCache :: "string \<rightharpoonup> tracking_entry"
  syncQueue :: "tracking_entry list"
  st_items :: "string \<rightharpoonup> tracking_entry"
  st_master :: "string list option"
  serverCalls :: "string list"

definition entry_key :: "string \<Rightarrow> string" where
  "entry_key i = ''tracking_'' @ i"

definition master_key :: string where
  "master_key = ''tracking_master_list''"

text \<open>
  Reading and writing the key of an entry. Read as an entry, a key that holds the master
  list gives no record here; the code would parse the list itself, which only a master
  list that names \<^verbatim>\<open>master_list\<close> leads to.
\<close>

definition getItem_entry :: "tracking_world \<Rightarrow> string \<Rightarrow> js_error + tracking_entry option" where
  "getItem_entry w k = (if getFails w k then Inl (Error ''getItem'') else Inr (st_items w k))"

definition setItem_entry :: "tracking_world \<Rightarrow> string \<Rightarrow> tracking_entry \<Rightarrow> js_error + tracking_world" where
  "setItem_entry w k v =
     (if setFails w k then Inl (Error ''setItem'')
      else Inr (w\<lparr>st_items := (st_items w)(k \<mapsto> v),
                  st_master := (if k = master_key then None else st_master w)\<rparr>))"

definition removeItem_entry :: "tracking_world \<Rightarrow> string \<Rightarrow> js_error + tracking_world" where
  "removeItem_entry w k =
     (if removeFails w k then Inl (Error ''removeItem'')
      else Inr (w\<lparr>st_items := (st_items w)(k := None),
                  st_master := (if k = master_key then None else st_master w)\<rparr>))"

text \<open>
  What \<^verbatim>\<open>JSON.parse\<close> gives for the text under \<^verbatim>\<open>tracking_master_list\<close>: the array of ids, or
  the object of an entry record written there.
\<close>

datatype parsed = ParsedIds "string list" | ParsedEntry tracking_entry

definition getItem_master :: "tracking_world \<Rightarrow> js_error + parsed option" where
  "getItem_master w =
     (if getFails w master_key then Inl (Error ''getItem'')
      else Inr (case st_items w master_key of
                  Some r \<Rightarrow> Some (ParsedEntry r)
                | None \<Rightarrow> map_option ParsedIds (st_master w)))"

definition setItem_master :: "tracking_world \<Rightarrow> string list \<Rightarrow> js_error + tracking_world" where
  "setItem_master w l =
     (if setFails w master_key then Inl (Error ''setItem'')
      else Inr (w\<lparr>st_master := Some l, st_items := (st_items w)(master_key := None)\<rparr>))"

definition removeItem_master :: "tracking_world \<Rightarrow> js_error + tracking_world" where
  "removeItem_master w =
     (if removeFails w master_key then Inl (Error ''removeItem'')
      else Inr (w\<lparr>st_master := None, st_items := (st_items w)(master_key := None)\<rparr>))"

text \<open>
  \<^verbatim>\<open>getMasterTrackingList\<close>: what the key holds, parsed; \<^verbatim>\<open>[]\<close> when the key is absent or
  when the read rejects.
\<close>

definition getMasterTrackingList :: "tracking_world \<Rightarrow> parsed \<times> tracking_world" where
  "getMasterTrackingList w =
     (case getItem_master w of
        Inl err \<Rightarrow> (ParsedIds [], console_log ''Get master tracking list error:'' w)
      | Inr None \<Rightarrow> (ParsedIds [], w)
      | Inr (Some v) \<Rightarrow> (v, w))"

text \<open>
  \<^verbatim>\<open>storeTrackingEntry\<close>: a rejected call leaves the \<^verbatim>\<open>try\<close> block at that point, with the
  writes before it done; the \<^verbatim>\<open>catch\<close> logs and returns. When the key of the master list
  holds a record, \<^verbatim>\<open>masterList\<close> is an object without \<^verbatim>\<open>push\<close>, and the call of it throws a
  \<^verbatim>\<open>TypeError\<close> into the same \<^verbatim>\<open>catch\<close>.
\<close>

definition storeTrackingEntry :: "tracking_world \<Rightarrow> tracking_entry \<Rightarrow> tracking_world" where
  "storeTrackingEntry w entry =
     (case setItem_entry w (entry_key (te_id entry)) entry of
        Inl err \<Rightarrow> console_log ''Store tracking entry error:'' w
      | Inr w1 \<Rightarrow>
          (case getMasterTrackingList w1 of
             (ParsedEntry obj, w2) \<Rightarrow> console_log ''Store tracking entry error:'' w2
           | (ParsedIds masterList, w2) \<Rightarrow>
               (case setItem_master w2 (masterList @ [te_id entry]) of
                  Inl err \<Rightarrow> console_log ''Store tracking entry error:'' w2
                | Inr w3 \<Rightarrow> w3)))"

text \<open>\<^verbatim>\<open>x || dflt\<close> on an optional string: the empty string is falsy too.\<close>

definition js_or :: "string option \<Rightarrow> 'a \<Rightarrow> (string \<Rightarrow> 'a) \<Rightarrow> 'a" where
  "js_or x dflt f = (case x of None \<Rightarrow> dflt | Some s \<Rightarrow> if s = [] then dflt else f s)"

text \<open>
  \<^verbatim>\<open>trackScan\<close>. \<open>tid\<close> is the id \<^verbatim>\<open>generateTrackingId()\<close> returned, \<open>now\<close> the clock and
  \<open>online\<close> what \<^verbatim>\<open>getNetworkStatus\<close> reported. The result is the entry, \<open>None\<close> standing for
  the \<^verbatim>\<open>null\<close> of the \<^verbatim>\<open>catch\<close> branch; no statement of the \<^verbatim>\<open>try\<close> block rejects
  (\<^verbatim>\<open>storeTrackingEntry\<close> catches its own errors), so it is never taken.
\<close>

definition trackScan ::
  "tracking_world \<Rightarrow> scan_data \<Rightarrow> string \<Rightarrow> int \<Rightarrow> bool \<Rightarrow> tracking_entry option \<times> tracking_world" where
  "trackScan w scanData tid now online =
     (let trackingEntry =
            \<lparr>te_id = tid, te_scanId = sd_id scanData, te_fittingId = sd_fittingId scanData,
             te_timestamp = now, te_location = js_or (sd_location scanData) None Some,
             te_userId = sd_userId scanData, te_status = ''scanned'',
             te_scanType = js_or (sd_type scanData) ''qr_code'' (\<lambda>s. s), te_online = online\<rparr>;
          w1 = w\<lparr>trackingCache := (trackingCache w)(te_id trackingEntry \<mapsto> trackingEntry)\<rparr>;
          w2 = storeTrackingEntry w1 trackingEntry;
          w3 = w2\<lparr>syncQueue := syncQueue w2 @ [trackingEntry]\<rparr>
      in (Some trackingEntry, w3))"

text \<open>
  \<^verbatim>\<open>getAllTrackingEntries\<close>: the loop over the master list. An id whose read rejects is
  warned about and skipped, one whose key is absent is skipped. When \<^verbatim>\<open>masterList\<close> is an
  object the \<^verbatim>\<open>for ... of\<close> throws a \<^verbatim>\<open>TypeError\<close>, and the outer \<^verbatim>\<open>catch\<close> returns \<^verbatim>\<open>[]\<close>.
\<close>

fun loadEntries :: "tracking_world \<Rightarrow> string list \<Rightarrow> tracking_entry list \<times> tracking_world" where
  "loadEntries w [] = ([], w)"
| "loadEntries w (entryId # ids) =
     (case getItem_entry w (entry_key entryId) of
        Inl err \<Rightarrow> loadEntries (console_log ''Failed to load tracking entry:'' w) ids
      | Inr None \<Rightarrow> loadEntries w ids
      | Inr (Some e) \<Rightarrow> (let (entries, w') = loadEntries w ids in (e # entries, w')))"

definition getAllTrackingEntries :: "tracking_world \<Rightarrow> tracking_entry list \<times> tracking_world" where
  "getAllTrackingEntries w =
     (case getMasterTrackingList w of
        (ParsedEntry obj, w1) \<Rightarrow> ([], console_log ''Get all tracking entries error:'' w1)
      | (ParsedIds masterList, w1) \<Rightarrow> loadEntries w1 masterList)"





text \<open>
  \<^verbatim>\<open>simulateServerSync\<close>: \<open>r\<close> is the draw of \<^verbatim>\<open>Math.random()\<close>; above 0.9 the call throws
  \<^verbatim>\<open>Error('Network timeout')\<close>.
\<close>

definition simulateServerSync :: "real \<Rightarrow> js_error + bool" where
  "simulateServerSync r = (if r > 0.9 then Inl (Error ''Network timeout'') else Inr True)"

text \<open>
  The loop of \<^verbatim>\<open>syncPendingEntries\<close> over the queue: \<open>rnd k\<close> is the draw of the \<open>k\<close>-th
  call in the cycle. It returns \<^verbatim>\<open>syncedCount\<close> and \<^verbatim>\<open>failedEntries\<close>.
\<close>

fun syncEntries ::
  "(nat \<Rightarrow> real) \<Rightarrow> nat \<Rightarrow> tracking_entry list \<Rightarrow> tracking_world \<Rightarrow> nat \<times> tracking_entry list \<times> tracking_world" where
  "syncEntries rnd k [] w = (0, [], w)"
| "syncEntries rnd k (entry # es) w =
     (let w1 = w\<lparr>serverCalls := serverCalls w @ [te_id entry]\<rparr>
      in case simulateServerSync (rnd k) of
           Inr ok \<Rightarrow>
             (let (syncedCount, failedEntries, w2) =
                    syncEntries rnd (Suc k) es (console_log ''Synced tracking entry:'' w1)
              in (Suc syncedCount, failedEntries, w2))
         | Inl err \<Rightarrow>
             (let (syncedCount, failedEntries, w2) =
                    syncEntries rnd (Suc k) es (console_log ''Failed to sync entry:'' w1)
              in (syncedCount, entry # failedEntries, w2)))"

text \<open>
  The object \<^verbatim>\<open>syncPendingEntries\<close> returns: \<open>sr_failed\<close> is \<open>None\<close> on the early return for
  an empty queue, which has no \<^verbatim>\<open>failed\<close> property.
\<close>

record sync_result =
  sr_success :: bool
  sr_synced :: nat
  sr_failed :: "nat option"

definition syncPendingEntries :: "(nat \<Rightarrow> real) \<Rightarrow> tracking_world \<Rightarrow> sync_result \<times> tracking_world" where
  "syncPendingEntries rnd w =
     (if length (syncQueue w) = 0 then (\<lparr>sr_success = True, sr_synced = 0, sr_failed = None\<rparr>, w)
      else
        (let (syncedCount, failedEntries, w1) = syncEntries rnd 0 (syncQueue w) w;
             w2 = w1\<lparr>syncQueue := failedEntries\<rparr>
         in (\<lparr>sr_success = True, sr_synced = syncedCount, sr_failed = Some (length failedEntries)\<rparr>, w2)))"

text \<open>
  \<^verbatim>\<open>clearTrackingData\<close>: the removal loop stops at the first call that rejects, with the
  removals before it done. The result is the \<^verbatim>\<open>success\<close> flag.
\<close>

fun removeEntries :: "tracking_world \<Rightarrow> string list \<Rightarrow> js_error option \<times> tracking_world" where
  "removeEntries w [] = (None, w)"
| "removeEntries w (entryId # ids) =
     (case removeItem_entry w (entry_key entryId) of
        Inl err \<Rightarrow> (Some err, w)
      | Inr w1 \<Rightarrow> removeEntries w1 ids)"

definition clearTrackingData :: "tracking_world \<Rightarrow> bool \<times> tracking_world" where
  "clearTrackingData w =
     (case getMasterTrackingList w of
        (ParsedEntry obj, w1) \<Rightarrow> (False, console_log ''Clear tracking data error:'' w1)
      | (ParsedIds masterList, w1) \<Rightarrow>
          (case removeEntries w1 masterList of
             (Some err, w2) \<Rightarrow> (False, console_log ''Clear tracking data error:'' w2)
           | (None, w2) \<Rightarrow>
               (case removeItem_master w2 of
                  Inl err \<Rightarrow> (False, console_log ''Clear tracking data error:'' w2)
                | Inr w3 \<Rightarrow> (True, w3\<lparr>trackingCache := Map.empty, syncQueue := []\<rparr>))))"

text \<open>
  \<^verbatim>\<open>importTrackingData\<close>: \<open>importData\<close> is the \<^verbatim>\<open>entries\<close> array of the import, \<open>None\<close> when
  the import or the property is missing. \<open>Imported n total\<close> is the result object of the
  normal return.
\<close>

fun importEntries :: "tracking_world \<Rightarrow> tracking_entry list \<Rightarrow> nat \<times> tracking_world" where
  "importEntries w [] = (0, w)"
| "importEntries w (entry # es) =
     (let w1 = storeTrackingEntry w entry;
          w2 = w1\<lparr>trackingCache := (trackingCache w1)(te_id entry \<mapsto> entry)\<rparr>;
          (importedCount, w3) = importEntries w2 es
      in (Suc importedCount, w3))"

datatype import_outcome = ImportFailed string | Imported nat nat

definition importTrackingData ::
  "tracking_world \<Rightarrow> tracking_entry list option \<Rightarrow> import_outcome \<times> tracking_world" where
  "importTrackingData w importData =
     (case importData of
        None \<Rightarrow> (ImportFailed ''Invalid import data format'',
                 console_log ''Import tracking data error:'' w)
      | Some entries \<Rightarrow>
          (let (importedCount, w') = importEntries w entries
           in (Imported importedCount (length entries), w')))"

section \<open>InspectionService: submission, local storage and sync\<close>

text \<open>\<^verbatim>\<open>isValidQRCode\<close>: the pattern
  \<^verbatim>\<open>/^(RC|LN|RP|SL)-\w+-\d{8}-VND\d{3}-\d{5}$/\<close>, read left to right. \<^verbatim>\<open>\w+\<close> is greedy and
  the character after it must be \<^verbatim>\<open>-\<close>, which is no word character, so the run it matches
  is the longest one.
\<close>

definition is_digit :: "char \<Rightarrow> bool" where
  "is_digit c = (let n = (of_char c :: nat) in 48 \<le> n \<and> n \<le> 57)"

definition is_word_char :: "char \<Rightarrow> bool" where
  "is_word_char c =
     (let n = (of_char c :: nat)
      in (48 \<le> n \<and> n \<le> 57) \<or> (65 \<le> n \<and> n \<le> 90) \<or> n = 95 \<or> (97 \<le> n \<and> n \<le> 122))"

definition digits_exactly :: "nat \<Rightarrow> string \<Rightarrow> bool" where
  "digits_exactly n s = (length s = n \<and> list_all is_digit s)"

definition isValidQRCode :: "string \<Rightarrow> bool" where
  "isValidQRCode qr =
     (let r1 = drop 2 qr;
          r2 = drop 1 r1;
          lot = takeWhile is_word_char r2;
          r3 = dropWhile is_word_char r2;
          r4 = drop 1 r3;
          r5 = drop 12 r4;
          r6 = drop 4 r5
      in take 2 qr \<in> set [''RC'', ''LN'', ''RP'', ''SL''] \<and> take 1 r1 = ''-'' \<and>
         lot \<noteq> [] \<and> take 1 r3 = ''-'' \<and>
         digits_exactly 8 (take 8 r4) \<and> take 4 (drop 8 r4) = ''-VND'' \<and>
         digits_exactly 3 (take 3 r5) \<and> take 1 (drop 3 r5) = ''-'' \<and>
         digits_exactly 5 r6)"

text \<open>
  \<^verbatim>\<open>validateInspectionData\<close>: the list of error messages, in the order the checks push
  them. \<open>isNaN\<close> is the global function of that name applied to a string of the form; it
  is consulted only for a non-empty string (\<^verbatim>\<open>x && isNaN(x)\<close>).
\<close>

definition validateInspectionData :: "(string \<Rightarrow> bool) \<Rightarrow> inspection_data \<Rightarrow> string list" where
  "validateInspectionData isNaN d =
     (if qrCode d = [] then [''QR Code is required''] else []) @
     (if inspectorName d = [] then [''Inspector name is required''] else []) @
     (if inspectionType d = [] then [''Inspection type is required''] else []) @
     (if qrCode d \<noteq> [] \<and> \<not> isValidQRCode (qrCode d) then [''Invalid QR code format''] else []) @
     (if dim_length (dimensionalCheck d) \<noteq> [] \<and> isNaN (dim_length (dimensionalCheck d))
      then [''Invalid length measurement''] else []) @
     (if dim_width (dimensionalCheck d) \<noteq> [] \<and> isNaN (dim_width (dimensionalCheck d))
      then [''Invalid width measurement''] else []) @
     (if hardness (materialCheck d) \<noteq> [] \<and> isNaN (hardness (materialCheck d))
      then [''Invalid hardness value''] else [])"

definition calculateVisualCondition :: "visual_check \<Rightarrow> string" where
  "calculateVisualCondition v =
     (let defects = length (filter (\<lambda>x. x) (visual_values v))
      in if defects = 0 then ''Excellent'' else if defects \<le> 1 then ''Good''
         else if defects \<le> 2 then ''Fair'' else ''Poor'')"

definition calculateDimensionalAccuracy :: "dimensional_check \<Rightarrow> string" where
  "calculateDimensionalAccuracy c =
     (if tolerance c = ''within'' then ''High'' else if tolerance c = ''marginal'' then ''Medium'' else ''Low'')"

definition determineMaterialGrade :: "material_check \<Rightarrow> string" where
  "determineMaterialGrade m =
     (if tensileStrength m = ''pass'' \<and> chemicalComposition m = ''pass'' then ''A''
      else if tensileStrength m = ''pass'' \<or> chemicalComposition m = ''pass'' then ''B''
      else ''C'')"

definition assessOperationalStatus :: "functional_check \<Rightarrow> string" where
  "assessOperationalStatus f =
     (if fitment f = ''good'' \<and> performance f = ''satisfactory'' then ''Operational''
      else if fitment f = ''fair'' \<or> performance f = ''acceptable'' then ''Conditional''
      else ''Non-Operational'')"

definition determinePassStatus :: "inspection_data \<Rightarrow> bool" where
  "determinePassStatus d =
     (visualDefects d = 0 \<and> tolerance (dimensionalCheck d) = ''within'' \<and>
      tensileStrength (materialCheck d) = ''pass'')"

definition assessRiskLevel :: "inspection_data \<Rightarrow> string" where
  "assessRiskLevel d =
     (let dimensionalPass = (tolerance (dimensionalCheck d) = ''within'');
          materialPass = (tensileStrength (materialCheck d) = ''pass'')
      in if visualDefects d > 2 \<or> \<not> dimensionalPass \<or> \<not> materialPass then ''High''
         else if visualDefects d > 0 \<or> tolerance (dimensionalCheck d) = ''marginal'' then ''Medium''
         else ''Low'')"

text \<open>
  \<^verbatim>\<open>generateInspectorSignature\<close>: \<^verbatim>\<open>btoa\<close> of the name, a hyphen and \<^verbatim>\<open>Date.now()\<close>. \<^verbatim>\<open>btoa\<close>
  throws an \<^verbatim>\<open>InvalidCharacterError\<close> when its argument has a code unit above 255; the
  hyphen and the digits have none, so the name decides. The Base64 text is kept as the two
  parts it encodes.
\<close>

datatype signature = Btoa js_string int

definition generateInspectorSignature :: "int \<Rightarrow> js_string \<Rightarrow> js_error + signature" where
  "generateInspectorSignature timestamp name =
     (if list_ex (\<lambda>u. u > 255) name then Inl (Error ''InvalidCharacterError'')
      else Inr (Btoa name timestamp))"

text \<open>
  The payload \<^verbatim>\<open>prepareInspectionPayload\<close> builds, flattened. The parsed measurements
  (\<^verbatim>\<open>parseFloat\<close>) and \<^verbatim>\<open>nextInspectionDate\<close> are left out. \<open>synced\<close> is the property
  \<^verbatim>\<open>syncPendingInspections\<close> sets; a fresh payload has none, which reads as false.
\<close>

record inspection =
  inspectionId :: string
  p_qrCode :: string
  p_inspectorName :: js_string
  p_inspectionType :: string
  p_timestamp :: int
  p_location :: string
  p_visual :: visual_check
  overallCondition :: string
  toleranceStatus :: string
  accuracy :: string
  materialGrade :: string
  operationalStatus :: string
  p_grade :: string
  passStatus :: bool
  riskLevel :: string
  p_remarks :: string
  p_recommendations :: "string list"
  p_photos :: "string list"
  inspectorSignature :: signature
  qualityScore :: int
  synced :: bool

text \<open>
  \<open>newId\<close> is what \<^verbatim>\<open>generateInspectionId()\<close> returned, \<open>now\<close> the clock when the timestamp
  is taken and \<open>sigNow\<close> the clock when the signature is made. The signature is the one
  property whose computation can throw; the error leaves the function.
\<close>

definition prepareInspectionPayload ::
  "string \<Rightarrow> int \<Rightarrow> int \<Rightarrow> inspection_data \<Rightarrow> js_error + inspection" where
  "prepareInspectionPayload newId now sigNow d =
     (case generateInspectorSignature sigNow (inspectorName d) of
        Inl err \<Rightarrow> Inl err
      | Inr sig \<Rightarrow>
          Inr \<lparr>inspectionId = newId, p_qrCode = qrCode d, p_inspectorName = inspectorName d,
               p_inspectionType = inspectionType d, p_timestamp = now,
               p_location = js_or (insp_location d) ''Unknown'' (\<lambda>s. s),
               p_visual = visualCheck d,
               overallCondition = calculateVisualCondition (visualCheck d),
               toleranceStatus = tolerance (dimensionalCheck d),
               accuracy = calculateDimensionalAccuracy (dimensionalCheck d),
               materialGrade = determineMaterialGrade (materialCheck d),
               operationalStatus = assessOperationalStatus (functionalCheck d),
               p_grade = overallGrade d, passStatus = determinePassStatus d,
               riskLevel = assessRiskLevel d,
               p_remarks = remarks d, p_recommendations = recommendations d, p_photos = photos d,
               inspectorSignature = sig,
               qualityScore = calculateQualityScore d, synced = False\<rparr>)"

text \<open>
  The report \<^verbatim>\<open>generateInspectionReport\<close> builds, with the summary flattened; \<^verbatim>\<open>keyFindings\<close>,
  \<^verbatim>\<open>nextActions\<close> and \<^verbatim>\<open>complianceStatus\<close> are left out.
\<close>

record report =
  reportId :: string
  generatedAt :: int
  rp_qrCode :: string
  rp_inspector :: js_string
  rp_type :: string
  rp_result :: string
  rp_grade :: string
  rp_riskLevel :: string
  rp_qualityScore :: int
  rp_recommendations :: "string list"

text \<open>
  The two remote portals, and what \<^verbatim>\<open>axios.post\<close> does with one request: its promise
  resolves with a response, or rejects with an error (a timeout, a connection failure, a
  status outside 2xx) of which the service reads the message only.
\<close>

datatype endpoint = UDM | TMS

datatype response = Resolved | Rejected string

text \<open>
  The keys of the store the service writes (\<open>None\<close> for an absent key), and \<open>requests\<close>,
  the posts made so far: the portal and the payload sent, in order. The token read from
  \<^verbatim>\<open>authToken\<close> goes into the request's header only.
\<close>

record inspection_world = platform +
  localInspections :: "inspection list option"
  inspectionReports :: "report list option"
  requests :: "(endpoint \<times> inspection) list"

record submit_result =
  sub_success :: bool
  sub_error :: "string option"

text \<open>
  \<^verbatim>\<open>submitToUDM\<close> and \<^verbatim>\<open>submitToTMS\<close>: \<open>resp\<close> is what the post does if it is made. Reading
  the token comes first; if that rejects, no request is made. Neither function throws.
\<close>

definition submitTo ::
  "endpoint \<Rightarrow> string \<Rightarrow> response \<Rightarrow> inspection_world \<Rightarrow> inspection \<Rightarrow> submit_result \<times> inspection_world" where
  "submitTo ep warning resp w payload =
     (if getFails w ''authToken''
      then (\<lparr>sub_success = False, sub_error = Some ''getItem''\<rparr>, console_log warning w)
      else
        (let w1 = w\<lparr>requests := requests w @ [(ep, payload)]\<rparr>
         in case resp of
              Resolved \<Rightarrow> (\<lparr>sub_success = True, sub_error = None\<rparr>, w1)
            | Rejected msg \<Rightarrow> (\<lparr>sub_success = False, sub_error = Some msg\<rparr>, console_log warning w1)))"

definition submitToUDM :: "response \<Rightarrow> inspection_world \<Rightarrow> inspection \<Rightarrow> submit_result \<times> inspection_world" where
  "submitToUDM = submitTo UDM ''UDM submission error:''"

definition submitToTMS :: "response \<Rightarrow> inspection_world \<Rightarrow> inspection \<Rightarrow> submit_result \<times> inspection_world" where
  "submitToTMS = submitTo TMS ''TMS submission error:''"

text \<open>
  \<^verbatim>\<open>storeInspectionLocally\<close>: append, then keep the last 100 (\<^verbatim>\<open>splice(0, length - 100)\<close>
  removes from the front).
\<close>

definition storeInspectionLocally :: "inspection_world \<Rightarrow> inspection \<Rightarrow> inspection_world" where
  "storeInspectionLocally w payload =
     (if getFails w ''localInspections'' then console_log ''Local storage error:'' w
      else
        (let inspections = (case localInspections w of None \<Rightarrow> [] | Some l \<Rightarrow> l);
             inspections = inspections @ [payload];
             inspections = (if length inspections > 100
                            then drop (length inspections - 100) inspections else inspections)
         in if setFails w ''localInspections'' then console_log ''Local storage error:'' w
            else w\<lparr>localInspections := Some inspections\<rparr>))"

definition getLocalInspections :: "inspection_world \<Rightarrow> inspection list \<times> inspection_world" where
  "getLocalInspections w =
     (if getFails w ''localInspections'' then ([], console_log ''Local retrieval error:'' w)
      else (case localInspections w of None \<Rightarrow> ([], w) | Some l \<Rightarrow> (l, w)))"

text \<open>\<^verbatim>\<open>storeReportLocally\<close>: the same with the last 50.\<close>

definition storeReportLocally :: "inspection_world \<Rightarrow> report \<Rightarrow> inspection_world" where
  "storeReportLocally w r =
     (if getFails w ''inspectionReports'' then console_log ''Report storage error:'' w
      else
        (let reports = (case inspectionReports w of None \<Rightarrow> [] | Some l \<Rightarrow> l);
             reports = reports @ [r];
             reports = (if length reports > 50 then drop (length reports - 50) reports else reports)
         in if setFails w ''inspectionReports'' then console_log ''Report storage error:'' w
            else w\<lparr>inspectionReports := Some reports\<rparr>))"

text \<open>
  \<^verbatim>\<open>generateInspectionReport\<close>: \<open>newReportId\<close> is \<^verbatim>\<open>RPT-<Date.now()>\<close>. Nothing in its
  \<^verbatim>\<open>try\<close> block rejects, so the id is always returned.
\<close>

definition generateInspectionReport ::
  "string \<Rightarrow> int \<Rightarrow> inspection_world \<Rightarrow> inspection_data \<Rightarrow> string option \<times> inspection_world" where
  "generateInspectionReport newReportId now w d =
     (let r = \<lparr>reportId = newReportId, generatedAt = now, rp_qrCode = qrCode d,
                rp_inspector = inspectorName d, rp_type = inspectionType d,
                rp_result = (if determinePassStatus d then ''PASSED'' else ''FAILED''),
                rp_grade = overallGrade d, rp_riskLevel = assessRiskLevel d,
                rp_qualityScore = calculateQualityScore d,
                rp_recommendations = recommendations d\<rparr>
      in (Some newReportId, storeReportLocally w r))"

text \<open>
  What the environment gives one call of \<^verbatim>\<open>submitInspection\<close>: the global \<^verbatim>\<open>isNaN\<close>, the
  generated ids, the clock at the payload's timestamp and at the signature, and what each
  portal does with the request.
\<close>

record submit_env =
  env_isNaN :: "string \<Rightarrow> bool"
  env_inspectionId :: string
  env_reportId :: string
  env_now :: int
  env_signatureTime :: int
  env_udm :: response
  env_tms :: response

record submission =
  sm_inspectionId :: string
  sm_reportId :: "string option"
  udmStatus :: bool
  tmsStatus :: bool
  sm_message :: string

datatype submit_outcome = SubmitFailed string | Submitted submission

text \<open>
  \<^verbatim>\<open>submitInspection\<close>. An error thrown while the payload is prepared reaches the \<^verbatim>\<open>catch\<close>
  branch before any request is made; the steps after the preparation catch their own
  errors.
\<close>

definition submitInspection ::
  "submit_env \<Rightarrow> inspection_world \<Rightarrow> inspection_data \<Rightarrow> submit_outcome \<times> inspection_world" where
  "submitInspection env w inspectionData =
     (let errors = validateInspectionData (env_isNaN env) inspectionData
      in if errors \<noteq> [] then (SubmitFailed (js_join '', '' errors), w)
         else
           (case prepareInspectionPayload (env_inspectionId env) (env_now env)
                   (env_signatureTime env) inspectionData of
              Inl err \<Rightarrow>
                (SubmitFailed ''Failed to submit inspection'',
                 console_log ''Inspection submission error:'' w)
            | Inr payload \<Rightarrow>
                (let (udmResult, w1) = submitToUDM (env_udm env) w payload;
                     (tmsResult, w2) = submitToTMS (env_tms env) w1 payload;
                     w3 = storeInspectionLocally w2 payload;
                     (newReportId, w4) =
                       generateInspectionReport (env_reportId env) (env_now env) w3 inspectionData
                 in (Submitted \<lparr>sm_inspectionId = inspectionId payload, sm_reportId = newReportId,
                                 udmStatus = sub_success udmResult,
                                 tmsStatus = sub_success tmsResult,
                                 sm_message = ''Inspection submitted successfully''\<rparr>, w4))))"

text \<open>
  The loop of \<^verbatim>\<open>syncPendingInspections\<close>. \<^verbatim>\<open>pendingSync\<close> holds references to objects of
  the \<^verbatim>\<open>localInspections\<close> array, here their indices, and \<^verbatim>\<open>inspection.synced = true\<close>
  writes through the reference. \<open>net ep p\<close> is what portal \<open>ep\<close> does with the upload of the
  inspection at index \<open>p\<close> in this cycle. The state of the loop is the array, \<^verbatim>\<open>successCount\<close>,
  \<^verbatim>\<open>failCount\<close> and the world.
\<close>

fun syncInspections ::
  "(endpoint \<Rightarrow> nat \<Rightarrow> response) \<Rightarrow> nat list \<Rightarrow> inspection list \<times> nat \<times> nat \<times> inspection_world \<Rightarrow>
   inspection list \<times> nat \<times> nat \<times> inspection_world" where
  "syncInspections net [] st = st"
| "syncInspections net (p # ps) (insps, successCount, failCount, w) =
     (let (udmResult, w1) = submitToUDM (net UDM p) w (insps ! p);
          (tmsResult, w2) = submitToTMS (net TMS p) w1 (insps ! p)
      in if sub_success udmResult \<or> sub_success tmsResult
         then syncInspections net ps (insps[p := (insps ! p)\<lparr>synced := True\<rparr>], Suc successCount, failCount, w2)
         else syncInspections net ps (insps, successCount, Suc failCount, w2))"

datatype sync_outcome = SyncError string | SyncDone nat nat nat

definition pendingSync :: "inspection list \<Rightarrow> nat list" where
  "pendingSync insps = filter (\<lambda>p. \<not> synced (insps ! p)) [0..<length insps]"

text \<open>
  \<^verbatim>\<open>syncPendingInspections\<close>: \<open>SyncDone synced failed total\<close> is the result object of the
  normal return, \<open>SyncError\<close> that of the \<^verbatim>\<open>catch\<close> branch, which a rejected write reaches.
\<close>

definition syncPendingInspections ::
  "(endpoint \<Rightarrow> nat \<Rightarrow> response) \<Rightarrow> inspection_world \<Rightarrow> sync_outcome \<times> inspection_world" where
  "syncPendingInspections net w =
     (let (insps, w1) = getLocalInspections w;
          pending = pendingSync insps;
          (insps', successCount, failCount, w2) = syncInspections net pending (insps, 0, 0, w1)
      in if setFails w2 ''localInspections'' then (SyncError ''setItem'', console_log ''Sync error:'' w2)
         else (SyncDone successCount failCount (length pending), w2\<lparr>localInspections := Some insps'\<rparr>))"

section \<open>DashboardService: the cached dashboard\<close>

text \<open>
  The service's two fields. The constructor sets the key \<^verbatim>\<open>dashboard_data\<close> and an expiry
  of five minutes, in milliseconds.
\<close>

record dashboard_service =
  cacheKey :: string
  cacheExpiry :: int

definition dashboardService :: dashboard_service where
  "dashboardService = \<lparr>cacheKey = ''dashboard_data'', cacheExpiry = 5 * 60 * 1000\<rparr>"

text \<open>
  The object \<^verbatim>\<open>cacheData\<close> stores under the key: the data and the time of storing. \<open>'d\<close> is
  the type of dashboard objects, every one of them truthy.
\<close>

record 'd cache_object =
  co_data :: 'd
  co_timestamp :: int

record 'd dashboard_world = platform +
  cacheStore :: "string \<rightharpoonup> 'd cache_object"

text \<open>\<^verbatim>\<open>getCachedData\<close>: \<open>now\<close> is \<^verbatim>\<open>Date.now()\<close> at the test. \<open>None\<close> is \<^verbatim>\<open>null\<close>.\<close>

definition getCachedData ::
  "dashboard_service \<Rightarrow> int \<Rightarrow> 'd dashboard_world \<Rightarrow> 'd option \<times> 'd dashboard_world" where
  "getCachedData svc now w =
     (if getFails w (cacheKey svc) then (None, console_log ''Cache retrieval error:'' w)
      else
        (case cacheStore w (cacheKey svc) of
           None \<Rightarrow> (None, w)
         | Some cached \<Rightarrow>
             (if now - co_timestamp cached < cacheExpiry svc then (Some (co_data cached), w)
              else (None, w))))"

text \<open>\<^verbatim>\<open>cacheData\<close>: \<open>now\<close> is \<^verbatim>\<open>Date.now()\<close> when the cache object is built.\<close>

definition cacheData ::
  "dashboard_service \<Rightarrow> int \<Rightarrow> 'd dashboard_world \<Rightarrow> 'd \<Rightarrow> 'd dashboard_world" where
  "cacheData svc now w d =
     (let cacheObject = \<lparr>co_data = d, co_timestamp = now\<rparr>
      in if setFails w (cacheKey svc) then console_log ''Cache storage error:'' w
         else w\<lparr>cacheStore := (cacheStore w)(cacheKey svc \<mapsto> cacheObject)\<rparr>)"

text \<open>
  \<^verbatim>\<open>getDashboardData\<close>: \<open>now\<close> is the clock at the cache test, \<open>now'\<close> the clock when the
  fresh data is cached, and \<open>generated\<close> what \<^verbatim>\<open>generateDashboardData()\<close> produces (from random
  draws and the clock; it reads no state and does not throw). \<^verbatim>\<open>getCachedData\<close> and
  \<^verbatim>\<open>cacheData\<close> catch their own errors, so the fallback of the \<^verbatim>\<open>catch\<close> branch is never taken.
\<close>

definition getDashboardData ::
  "dashboard_service \<Rightarrow> int \<Rightarrow> int \<Rightarrow> 'd \<Rightarrow> 'd dashboard_world \<Rightarrow> 'd \<times> 'd dashboard_world" where
  "getDashboardData svc now now' generated w =
     (let (cachedData, w1) = getCachedData svc now w
      in case cachedData of
           Some d \<Rightarrow> (d, w1)
         | None \<Rightarrow> (let dashboardData = generated; w2 = cacheData svc now' w1 dashboardData
                     in (dashboardData, w2)))"

section \<open>QRService: parsing a scanned code\<close>

text \<open>
  JavaScript values, as far as the fitting details need them; an object is its property
  list. \<open>JInherited k\<close> is the value every plain object inherits from \<^verbatim>\<open>Object.prototype\<close>
  under the name \<open>k\<close>: a function, or for \<^verbatim>\<open>__proto__\<close> the prototype itself.
\<close>

datatype json =
  JStr string | JNum real | JArr "json list" | JObj "(string \<times> json) list" | JInherited string

definition objectPrototypeNames :: "string list" where
  "objectPrototypeNames =
     [''constructor'', ''__defineGetter__'', ''__defineSetter__'', ''hasOwnProperty'',
      ''__lookupGetter__'', ''__lookupSetter__'', ''isPrototypeOf'', ''propertyIsEnumerable'',
      ''toString'', ''valueOf'', ''__proto__'', ''toLocaleString'']"

text \<open>
  \<^verbatim>\<open>table[k]\<close> on an object literal: its own property, else the inherited one; \<open>None\<close> is
  \<^verbatim>\<open>undefined\<close>. Every value found is truthy, so \<^verbatim>\<open>table[k] || dflt\<close> gives it.
\<close>

definition table_get :: "(string \<times> json) list \<Rightarrow> string \<Rightarrow> json option" where
  "table_get table k =
     (case map_of table k of
        Some v \<Rightarrow> Some v
      | None \<Rightarrow> if k \<in> set objectPrototypeNames then Some (JInherited k) else None)"

text \<open>
  An object literal \<^verbatim>\<open>{...base, ...extra}\<close>: every property of \<open>extra\<close> is written into the
  object, replacing the value of a property already there.
\<close>

definition obj_spread :: "(string \<times> json) list \<Rightarrow> (string \<times> json) list \<Rightarrow> (string \<times> json) list" where
  "obj_spread base extra = foldl (\<lambda>obj (k, v). AList.update k v obj) base extra"

text \<open>\<^verbatim>\<open>obj[k]\<close>: \<open>None\<close> is \<^verbatim>\<open>undefined\<close>.\<close>

definition obj_get :: "(string \<times> json) list \<Rightarrow> string \<Rightarrow> json option" where
  "obj_get obj k = map_of obj k"

definition getFittingTypeName :: "string \<Rightarrow> json" where
  "getFittingTypeName code =
     (case table_get [(''RC'', JStr ''Elastic Rail Clip''), (''LN'', JStr ''Liner''),
                      (''RP'', JStr ''Rail Pad''), (''SL'', JStr ''Sleeper'')] code of
        Some n \<Rightarrow> n | None \<Rightarrow> JStr ''Unknown'')"

text \<open>
  \<open>None\<close> is \<^verbatim>\<open>undefined\<close>: as a key it is the name \<^verbatim>\<open>undefined\<close>, which no object has, and
  the template string prints it as such.
\<close>

definition getVendorName :: "string option \<Rightarrow> json" where
  "getVendorName code =
     (case code of
        None \<Rightarrow> JStr ''Vendor undefined''
      | Some c \<Rightarrow>
          (case table_get [(''VND001'', JStr ''Bharat Steel Industries''),
                           (''VND002'', JStr ''Railway Track Components Ltd''),
                           (''VND003'', JStr ''Indian Rail Fittings Corp''),
                           (''VND004'', JStr ''Steel Authority of India''),
                           (''VND005'', JStr ''Tata Steel Railway Division'')] c of
             Some n \<Rightarrow> n | None \<Rightarrow> JStr (''Vendor '' @ c)))"

text \<open>The degree and plus-minus signs of the source's strings are written in ASCII here.\<close>

definition getSpecifications :: "string \<Rightarrow> json" where
  "getSpecifications t =
     (case table_get
        [(''RC'', JObj [(''material'', JStr ''Spring Steel''), (''grade'', JStr ''Grade 60''),
                        (''tensileStrength'', JStr ''1800-2000 MPa''), (''hardness'', JStr ''52-58 HRC''),
                        (''coating'', JStr ''Zinc Plated'')]),
         (''LN'', JObj [(''material'', JStr ''Cast Iron''), (''grade'', JStr ''Grade 250''),
                        (''dimensions'', JStr ''165x135x13 mm''), (''weight'', JStr ''0.8 kg''),
                        (''finish'', JStr ''Shot Blasted'')]),
         (''RP'', JObj [(''material'', JStr ''EPDM Rubber''), (''hardness'', JStr ''70+-5 Shore A''),
                        (''dimensions'', JStr ''165x135x6 mm''), (''density'', JStr ''1.4 g/cm3''),
                        (''temperature'', JStr ''-40C to +70C'')]),
         (''SL'', JObj [(''material'', JStr ''Concrete''), (''grade'', JStr ''M40''),
                        (''dimensions'', JStr ''2600x240x200 mm''), (''weight'', JStr ''280 kg''),
                        (''reinforcement'', JStr ''PSC'')])] t of
        Some o' \<Rightarrow> o' | None \<Rightarrow> JObj [])"

definition getUnitPrice :: "string \<Rightarrow> json" where
  "getUnitPrice t =
     (case table_get [(''RC'', JNum 45.50), (''LN'', JNum 32.25), (''RP'', JNum 28.75),
                      (''SL'', JNum 1450.00)] t of
        Some pr \<Rightarrow> pr | None \<Rightarrow> JNum 0)"

definition getMockInspectionHistory :: json where
  "getMockInspectionHistory =
     JArr [JObj [(''date'', JStr ''2024-09-20''), (''type'', JStr ''Manufacturing Quality Check''),
                 (''inspector'', JStr ''QC Team A''), (''result'', JStr ''Passed''), (''grade'', JStr ''A''),
                 (''remarks'', JStr ''All parameters within specification'')],
           JObj [(''date'', JStr ''2024-09-21''), (''type'', JStr ''Pre-dispatch Inspection''),
                 (''inspector'', JStr ''QA Inspector''), (''result'', JStr ''Passed''), (''grade'', JStr ''A''),
                 (''remarks'', JStr ''Ready for dispatch'')]]"

text \<open>\<^verbatim>\<open>formatDate\<close>: \<^verbatim>\<open>YYYYMMDD\<close> to \<^verbatim>\<open>DD/MM/YYYY\<close>, any other string unchanged.\<close>

definition formatDate :: "string \<Rightarrow> string" where
  "formatDate dateStr =
     (if length dateStr = 8
      then take 2 (drop 6 dateStr) @ ''/'' @ take 2 (drop 4 dateStr) @ ''/'' @ take 4 dateStr
      else dateStr)"

text \<open>\<^verbatim>\<open>parts[i]\<close>: \<open>None\<close> is \<^verbatim>\<open>undefined\<close>, past the end of the array.\<close>

definition nth_part :: "string list \<Rightarrow> nat \<Rightarrow> string option" where
  "nth_part parts i = (if i < length parts then Some (parts ! i) else None)"

text \<open>
  \<^verbatim>\<open>getMockFittingDetails\<close>: \<open>r\<close> is the draw of \<^verbatim>\<open>Math.random()\<close> and \<open>mockId\<close> is
  \<^verbatim>\<open>Date.now().toString()\<close>. With fewer than three parts the date is \<^verbatim>\<open>undefined\<close> and
  \<^verbatim>\<open>formatDate\<close> throws a \<^verbatim>\<open>TypeError\<close>; the first part always exists.
\<close>

definition getMockFittingDetails :: "real \<Rightarrow> string \<Rightarrow> string \<Rightarrow> js_error + (string \<times> json) list" where
  "getMockFittingDetails r mockId qrCode' =
     (let parts = js_split CHR ''-'' qrCode'
      in case nth_part parts 2 of
           None \<Rightarrow> Inl (Error ''TypeError'')
         | Some date \<Rightarrow>
             Inr [(''vendorName'', getVendorName (nth_part parts 3)),
                  (''specifications'', getSpecifications (parts ! 0)),
                  (''warrantyPeriod'', JStr ''24 months''),
                  (''supplyDate'', JStr (formatDate date)),
                  (''inspectionHistory'', getMockInspectionHistory),
                  (''qualityGrade'', JStr ''A''),
                  (''location'', JStr ''Warehouse-A-Block-3''),
                  (''quantity'', JNum (of_int (\<lfloor>r * 1000\<rfloor> + 100))),
                  (''unitPrice'', getUnitPrice (parts ! 0)),
                  (''totalValue'', JNum 0),
                  (''status'', JStr ''Good''),
                  (''lastInspected'', JStr ''20/09/2025''),
                  (''id'', JStr mockId)])"

text \<open>
  What \<^verbatim>\<open>axios.get\<close> does with the lookup: it resolves with the response's data, an
  object, or rejects. \<open>lookups\<close> records the codes looked up at the portal, in order.
\<close>

datatype lookup_response = Found "(string \<times> json) list" | LookupRejected string

record qr_world = platform +
  lookups :: "string list"

record qr_env =
  qe_lookup :: lookup_response
  qe_random :: real
  qe_mockId :: string

text \<open>
  \<^verbatim>\<open>getFittingDetails\<close>: the \<^verbatim>\<open>catch\<close> branch returns the mock details; an error thrown
  there leaves the function.
\<close>

definition getFittingDetails ::
  "qr_env \<Rightarrow> qr_world \<Rightarrow> string \<Rightarrow> (js_error + (string \<times> json) list) \<times> qr_world" where
  "getFittingDetails env w qrCode' =
     (if getFails w ''authToken''
      then (getMockFittingDetails (qe_random env) (qe_mockId env) qrCode', console_log ''UDM API error:'' w)
      else
        (let w1 = w\<lparr>lookups := lookups w @ [qrCode']\<rparr>
         in case qe_lookup env of
              Found d \<Rightarrow> (Inr d, w1)
            | LookupRejected msg \<Rightarrow>
                (getMockFittingDetails (qe_random env) (qe_mockId env) qrCode',
                 console_log ''UDM API error:'' w1)))"

datatype parse_result = ParseFailure string | ParseSuccess "(string \<times> json) list"

definition validTypes :: "string list" where
  "validTypes = [''RC'', ''LN'', ''RP'', ''SL'']"

text \<open>\<^verbatim>\<open>parseQRCode\<close>, for a string \<open>qrData\<close>.\<close>

definition parseQRCode :: "qr_env \<Rightarrow> qr_world \<Rightarrow> string \<Rightarrow> parse_result \<times> qr_world" where
  "parseQRCode env w qrData =
     (let parts = js_split CHR ''-'' qrData
      in if length parts < 5 then (ParseFailure ''Invalid QR code format'', w)
         else
           (let ftype = parts ! 0; lot = parts ! 1; date = parts ! 2; vendor = parts ! 3;
                serial = parts ! 4
            in if ftype \<notin> set validTypes then (ParseFailure ''Invalid fitting type'', w)
               else
                 (case getFittingDetails env w qrData of
                    (Inl err, w1) \<Rightarrow>
                      (ParseFailure ''QR code parsing failed'', console_log ''QR parsing error:'' w1)
                  | (Inr fittingDetails, w1) \<Rightarrow>
                      (ParseSuccess
                         (obj_spread
                            [(''qrCode'', JStr qrData), (''type'', getFittingTypeName ftype),
                             (''typeCode'', JStr ftype), (''lotNumber'', JStr lot),
                             (''manufactureDate'', JStr date), (''vendorCode'', JStr vendor),
                             (''serialNumber'', JStr serial)]
                            fittingDetails), w1))))"

section \<open>Concrete inputs\<close>

text \<open>A tracking world with an empty store and no faults, and one whose every write rejects.\<close>

definition empty_world :: tracking_world where
  "empty_world =
     \<lparr>getFails = (\<lambda>k. False), setFails = (\<lambda>k. False), removeFails = (\<lambda>k. False), console = [],
      trackingCache = Map.empty, syncQueue = [], st_items = Map.empty, st_master = None,
      serverCalls = []\<rparr>"

definition faulty_world :: tracking_world where
  "faulty_world = empty_world\<lparr>setFails := (\<lambda>k. True)\<rparr>"

definition scan1 :: scan_data where
  "scan1 = \<lparr>sd_id = ''s1'', sd_fittingId = ''RC-L1-20240101-VND001-00001'', sd_location = None,
             sd_userId = ''u1'', sd_type = None\<rparr>"

text \<open>An entry as an import can hold it, whose id makes its key the key of the master list.\<close>

definition entry_master :: tracking_entry where
  "entry_master = \<lparr>te_id = ''master_list'', te_scanId = ''s9'', te_fittingId = ''RC-L1-20240101-VND001-00001'',
                    te_timestamp = 3000, te_location = None, te_userId = ''u1'',
                    te_status = ''scanned'', te_scanType = ''qr_code'', te_online = True\<rparr>"

definition entry1 :: tracking_entry where
  "entry1 = \<lparr>te_id = ''t1'', te_scanId = ''s1'', te_fittingId = ''RC-L1-20240101-VND001-00001'',
              te_timestamp = 1000, te_location = None, te_userId = ''u1'', te_status = ''scanned'',
              te_scanType = ''qr_code'', te_online = True\<rparr>"

text \<open>The world after one scan at time 1000, and after a second one at time 2000.\<close>

definition one_scan :: tracking_world where
  "one_scan = snd (trackScan empty_world scan1 ''t1'' 1000 True)"

definition two_scans :: tracking_world where
  "two_scans = snd (trackScan one_scan scan1 ''t2'' 2000 True)"

text \<open>The inspection form as the screen initialises it, with the required fields filled in.\<close>

definition form1 :: inspection_data where
  "form1 =
     \<lparr>qrCode = ''RC-L1-20240101-VND001-00001'', inspectorName = js_str ''A. Kumar'',
      inspectionType = ''routine'', insp_location = None,
      visualCheck = \<lparr>cracks = False, corrosion = False, deformation = False, surfaceDamage = False\<rparr>,
      dimensionalCheck = \<lparr>dim_length = '''', dim_width = '''', dim_height = '''', tolerance = ''within''\<rparr>,
      materialCheck = \<lparr>hardness = '''', tensileStrength = ''pass'', chemicalComposition = ''pass''\<rparr>,
      functionalCheck = \<lparr>fitment = ''good'', performance = ''satisfactory''\<rparr>,
      overallGrade = ''A'', remarks = '''', recommendations = [], photos = []\<rparr>"

text \<open>The \<open>n\<close>-th of a series of payloads of that form, told apart by their ids.\<close>

definition numbered :: "nat \<Rightarrow> inspection" where
  "numbered n = projr (prepareInspectionPayload (replicate (Suc n) CHR ''i'') (int n) (int n) form1)"

text \<open>The same form signed with a name in Devanagari, whose code units are above 255.\<close>

definition form_devanagari :: inspection_data where
  "form_devanagari = form1\<lparr>inspectorName := [2309, 2350, 2367, 2340]\<rparr>"

definition inspection_world0 :: inspection_world where
  "inspection_world0 =
     \<lparr>getFails = (\<lambda>k. False), setFails = (\<lambda>k. False), removeFails = (\<lambda>k. False), console = [],
      localInspections = None, inspectionReports = None, requests = []\<rparr>"

definition one_pending :: inspection_world where
  "one_pending = inspection_world0\<lparr>localInspections := Some [numbered 0]\<rparr>"

definition full_store :: inspection_world where
  "full_store = inspection_world0\<lparr>localInspections := Some (map numbered [0..<100])\<rparr>"

text \<open>
  Three behaviours of the portals: UDM accepts while TMS times out; both reject the payload
  with status 400; both time out. The messages are the ones axios gives.
\<close>

definition net_udm_only :: "endpoint \<Rightarrow> nat \<Rightarrow> response" where
  "net_udm_only ep p = (case ep of UDM \<Rightarrow> Resolved | TMS \<Rightarrow> Rejected ''timeout of 10000ms exceeded'')"

definition net_rejecting :: "endpoint \<Rightarrow> nat \<Rightarrow> response" where
  "net_rejecting ep p = Rejected ''Request failed with status code 400''"

definition net_timeout :: "endpoint \<Rightarrow> nat \<Rightarrow> response" where
  "net_timeout ep p = Rejected ''timeout of 10000ms exceeded''"

definition env_udm_down :: submit_env where
  "env_udm_down =
     \<lparr>env_isNaN = (\<lambda>s. True), env_inspectionId = ''INS-1700000000000-42'',
      env_reportId = ''RPT-1700000000007'', env_now = 1700000000000,
      env_signatureTime = 1700000000001,
      env_udm = Rejected ''timeout of 10000ms exceeded'', env_tms = Resolved\<rparr>"

text \<open>A dashboard cache holding a value stored at time 1000.\<close>

definition dash_world0 :: "string dashboard_world" where
  "dash_world0 =
     \<lparr>getFails = (\<lambda>k. False), setFails = (\<lambda>k. False), removeFails = (\<lambda>k. False), console = [],
      cacheStore = [''dashboard_data'' \<mapsto> \<lparr>co_data = ''old'', co_timestamp = 1000\<rparr>]\<rparr>"

text \<open>
  A QR world, a portal whose answer carries a \<^verbatim>\<open>lotNumber\<close> of its own, and one whose answer
  carries the vendor's name only.
\<close>

definition qr_world0 :: qr_world where
  "qr_world0 =
     \<lparr>getFails = (\<lambda>k. False), setFails = (\<lambda>k. False), removeFails = (\<lambda>k. False), console = [],
      lookups = []\<rparr>"

definition env_override :: qr_env where
  "env_override =
     \<lparr>qe_lookup = Found [(''lotNumber'', JStr ''LOT-OF-PORTAL'')], qe_random = 0.5,
      qe_mockId = ''1700000000000''\<rparr>"

definition env_found :: qr_env where
  "env_found =
     \<lparr>qe_lookup = Found [(''vendorName'', JStr ''Bharat Steel Industries'')], qe_random = 0.5,
      qe_mockId = ''1700000000000''\<rparr>"

definition env_rejected :: qr_env where
  "env_rejected =
     \<lparr>qe_lookup = LookupRejected ''Network Error'', qe_random = 0.5, qe_mockId = ''1700000000000''\<rparr>"

text \<open>The names of the five properties \<^verbatim>\<open>parseQRCode\<close> fills from the parts of the code.\<close>

definition parsedKeys :: "string list" where
  "parsedKeys = [''typeCode'', ''lotNumber'', ''manufactureDate'', ''vendorCode'', ''serialNumber'']"

section \<open>What the platform operations leave unchanged\<close>

lemma console_log_fields [simp]:
  "getFails (console_log m w) = getFails w"
  "setFails (console_log m w) = setFails w"
  "removeFails (console_log m w) = removeFails w"
  "console (console_log m w) = console w @ [m]"
  by (simp_all add: console_log_def)

lemma console_log_tracking [simp]:
  "trackingCache (console_log m w) = trackingCache w"
  "syncQueue (console_log m w) = syncQueue w"
  "st_items (console_log m w) = st_items w"
  "st_master (console_log m w) = st_master w"
  "serverCalls (console_log m w) = serverCalls w"
  by (simp_all add: console_log_def)


lemma entry_key_master [simp]:
  "(entry_key i = master_key) = (i = ''master_list'')"
  "(master_key = entry_key i) = (i = ''master_list'')"
  by (auto simp: entry_key_def master_key_def)

lemma storeTrackingEntry_memory:
  "trackingCache (storeTrackingEntry w e) = trackingCache w \<and>
   syncQueue (storeTrackingEntry w e) = syncQueue w"
  by (auto simp: storeTrackingEntry_def setItem_entry_def setItem_master_def Let_def
        getMasterTrackingList_def getItem_master_def
        split: prod.splits option.splits if_splits parsed.splits)

lemma storeTrackingEntry_fault_logged:
  "setFails w (entry_key (te_id e)) \<or> setFails w master_key \<Longrightarrow>
   last (console (storeTrackingEntry w e)) = ''Store tracking entry error:''"
  by (auto simp: storeTrackingEntry_def setItem_entry_def setItem_master_def Let_def
        getMasterTrackingList_def getItem_master_def
        split: prod.splits option.splits if_splits parsed.splits)

text \<open>
  One call on a working store whose master key holds a list, for an entry whose key is not
  that key: the record is written and the id appended.
\<close>

lemma storeTrackingEntry_working:
  assumes "\<not> setFails w (entry_key (te_id e))" "\<not> setFails w master_key" "\<not> getFails w master_key"
    and "te_id e \<noteq> ''master_list''" and "fst (getMasterTrackingList w) = ParsedIds l"
  shows "fst (getMasterTrackingList (storeTrackingEntry w e)) = ParsedIds (l @ [te_id e])"
    and "st_items (storeTrackingEntry w e) (entry_key (te_id e)) = Some e"
    and "setFails (storeTrackingEntry w e) = setFails w"
    and "getFails (storeTrackingEntry w e) = getFails w"
  using assms
  by (auto simp: storeTrackingEntry_def setItem_entry_def setItem_master_def Let_def
        getMasterTrackingList_def getItem_master_def
        split: prod.splits option.splits if_splits parsed.splits)

lemma storeTrackingEntry_keeps_items:
  "\<not> getFails w master_key \<Longrightarrow> dom (st_items w) \<subseteq> dom (st_items (storeTrackingEntry w e))"
  by (auto simp: storeTrackingEntry_def setItem_entry_def setItem_master_def Let_def
        getMasterTrackingList_def getItem_master_def
        split: prod.splits option.splits if_splits parsed.splits)

lemma submitTo_pair:
  "\<not> getFails w ''authToken'' \<Longrightarrow>
   \<exists>w'. submitTo ep m resp w p =
          (\<lparr>sub_success = (resp = Resolved),
            sub_error = (case resp of Resolved \<Rightarrow> None | Rejected e \<Rightarrow> Some e)\<rparr>, w') \<and>
        getFails w' = getFails w \<and> setFails w' = setFails w"
  by (auto simp: submitTo_def Let_def console_log_def split: if_splits response.splits)

lemma submitTo_result:
  "\<not> getFails w ''authToken'' \<Longrightarrow>
   sub_success (fst (submitTo ep m resp w p)) = (resp = Resolved) \<and>
   requests (snd (submitTo ep m resp w p)) = requests w @ [(ep, p)] \<and>
   getFails (snd (submitTo ep m resp w p)) = getFails w"
  by (auto simp: submitTo_def Let_def console_log_def split: if_splits response.splits)

lemma form1_signed:
  "generateInspectorSignature t (inspectorName form1) = Inr (Btoa (inspectorName form1) t)"
  by (simp add: generateInspectorSignature_def form1_def js_str_def)

lemma numbered_id [simp]: "inspectionId (numbered n) = replicate (Suc n) CHR ''i''"
  by (simp add: numbered_def prepareInspectionPayload_def form1_signed)

lemma numbered_pending [simp]: "\<not> synced (numbered n)"
  by (simp add: numbered_def prepareInspectionPayload_def form1_signed)

section \<open>C1: when a pending inspection is marked synced\<close>

text \<open>
  The loop over the pending indices, as a map over the array: an index of the list whose
  upload one portal accepts gets the flag, every other object is left as it was.
\<close>

lemma syncInspections_spec:
  assumes "distinct ps" and "\<not> getFails w ''authToken''"
  shows "\<exists>sc' fc' w'. syncInspections net ps (insps, sc, fc, w) =
           (map (\<lambda>q. if q \<in> set ps \<and> (net UDM q = Resolved \<or> net TMS q = Resolved)
                      then (insps ! q)\<lparr>synced := True\<rparr> else insps ! q) [0..<length insps],
            sc', fc', w') \<and>
           getFails w' = getFails w \<and> setFails w' = setFails w"
  using assms
proof (induction ps arbitrary: insps sc fc w)
  case Nil
  show ?case by (simp add: map_nth)
next
  case (Cons p ps)
  obtain w1 where u: "submitTo UDM ''UDM submission error:'' (net UDM p) w (insps ! p) =
      (\<lparr>sub_success = (net UDM p = Resolved),
        sub_error = (case net UDM p of Resolved \<Rightarrow> None | Rejected e \<Rightarrow> Some e)\<rparr>, w1)"
     and f1: "getFails w1 = getFails w" "setFails w1 = setFails w"
    using submitTo_pair [OF Cons.prems(2)] by blast
  have g1: "\<not> getFails w1 ''authToken''" using Cons.prems(2) f1 by simp
  obtain w2 where t: "submitTo TMS ''TMS submission error:'' (net TMS p) w1 (insps ! p) =
      (\<lparr>sub_success = (net TMS p = Resolved),
        sub_error = (case net TMS p of Resolved \<Rightarrow> None | Rejected e \<Rightarrow> Some e)\<rparr>, w2)"
     and f2: "getFails w2 = getFails w1" "setFails w2 = setFails w1"
    using submitTo_pair [OF g1] by blast
  have g2: "\<not> getFails w2 ''authToken''" using g1 f2 by simp
  have d: "distinct ps" "p \<notin> set ps" using Cons.prems(1) by simp_all
  show ?case
  proof (cases "net UDM p = Resolved \<or> net TMS p = Resolved")
    case True
    let ?i1 = "insps[p := (insps ! p)\<lparr>synced := True\<rparr>]"
    from Cons.IH [OF d(1) g2, of ?i1 "Suc sc" fc]
    obtain sc' fc' w' where ih: "syncInspections net ps (?i1, Suc sc, fc, w2) =
           (map (\<lambda>q. if q \<in> set ps \<and> (net UDM q = Resolved \<or> net TMS q = Resolved)
                      then (?i1 ! q)\<lparr>synced := True\<rparr> else ?i1 ! q) [0..<length ?i1], sc', fc', w')"
        and fr: "getFails w' = getFails w2" "setFails w' = setFails w2" by blast
    have el: "(if q \<in> set ps \<and> (net UDM q = Resolved \<or> net TMS q = Resolved)
                then (?i1 ! q)\<lparr>synced := True\<rparr> else ?i1 ! q) =
              (if q \<in> set (p # ps) \<and> (net UDM q = Resolved \<or> net TMS q = Resolved)
                then (insps ! q)\<lparr>synced := True\<rparr> else insps ! q)" if "q < length insps" for q
    proof (cases "q = p")
      case True
      with that d(2) \<open>net UDM p = Resolved \<or> net TMS p = Resolved\<close> show ?thesis by simp
    next
      case False
      then show ?thesis by auto
    qed
    have eq: "map (\<lambda>q. if q \<in> set ps \<and> (net UDM q = Resolved \<or> net TMS q = Resolved)
                      then (?i1 ! q)\<lparr>synced := True\<rparr> else ?i1 ! q) [0..<length ?i1] =
          map (\<lambda>q. if q \<in> set (p # ps) \<and> (net UDM q = Resolved \<or> net TMS q = Resolved)
                      then (insps ! q)\<lparr>synced := True\<rparr> else insps ! q) [0..<length insps]"
      using el by simp
    show ?thesis
      using True u t ih fr f1 f2 unfolding eq [symmetric]
      by (simp add: submitToUDM_def submitToTMS_def)
  next
    case False
    from Cons.IH [OF d(1) g2, of insps sc "Suc fc"]
    obtain sc' fc' w' where ih: "syncInspections net ps (insps, sc, Suc fc, w2) =
           (map (\<lambda>q. if q \<in> set ps \<and> (net UDM q = Resolved \<or> net TMS q = Resolved)
                      then (insps ! q)\<lparr>synced := True\<rparr> else insps ! q) [0..<length insps], sc', fc', w')"
        and fr: "getFails w' = getFails w2" "setFails w' = setFails w2" by blast
    have eq: "map (\<lambda>q. if q \<in> set ps \<and> (net UDM q = Resolved \<or> net TMS q = Resolved)
                      then (insps ! q)\<lparr>synced := True\<rparr> else insps ! q) [0..<length insps] =
          map (\<lambda>q. if q \<in> set (p # ps) \<and> (net UDM q = Resolved \<or> net TMS q = Resolved)
                      then (insps ! q)\<lparr>synced := True\<rparr> else insps ! q) [0..<length insps]"
      using False by auto
    show ?thesis
      using False u t ih fr f1 f2 unfolding eq [symmetric]
      by (simp add: submitToUDM_def submitToTMS_def)
  qed
qed

text \<open>
  Claim C1, as the code has it. With the store and the token readable and the store
  writable, a sync cycle keeps the stored list's length, and an inspection that was pending
  at index \<open>p\<close> comes out of the cycle with its \<open>synced\<close> flag set exactly when the upload was
  accepted by UDM or by TMS: one portal is enough, and it stays pending only when both
  uploads failed. Nothing else of the inspection changes.
\<close>

theorem synced_iff_either_endpoint:
  assumes "\<not> getFails w ''localInspections''" and "\<not> setFails w ''localInspections''"
    and "\<not> getFails w ''authToken''"
    and "p < length (fst (getLocalInspections w))"
    and "\<not> synced (fst (getLocalInspections w) ! p)"
  shows "length (fst (getLocalInspections (snd (syncPendingInspections net w)))) =
           length (fst (getLocalInspections w)) \<and>
         fst (getLocalInspections (snd (syncPendingInspections net w))) ! p =
           (fst (getLocalInspections w) ! p)\<lparr>synced := (net UDM p = Resolved \<or> net TMS p = Resolved)\<rparr>"
proof -
  obtain xs where xs: "getLocalInspections w = (xs, w)"
    using assms(1) by (cases "localInspections w") (auto simp: getLocalInspections_def)
  have p: "p < length xs" "\<not> synced (xs ! p)" using assms(4,5) xs by simp_all
  have dp: "distinct (pendingSync xs)" by (simp add: pendingSync_def)
  have mem: "p \<in> set (pendingSync xs)" using p by (simp add: pendingSync_def)
  from syncInspections_spec [OF dp assms(3), of net xs 0 0]
  obtain sc' fc' w' where run: "syncInspections net (pendingSync xs) (xs, 0, 0, w) =
           (map (\<lambda>q. if q \<in> set (pendingSync xs) \<and> (net UDM q = Resolved \<or> net TMS q = Resolved)
                      then (xs ! q)\<lparr>synced := True\<rparr> else xs ! q) [0..<length xs], sc', fc', w')"
     and fr: "getFails w' = getFails w" "setFails w' = setFails w" by blast
  let ?xs' = "map (\<lambda>q. if q \<in> set (pendingSync xs) \<and> (net UDM q = Resolved \<or> net TMS q = Resolved)
                      then (xs ! q)\<lparr>synced := True\<rparr> else xs ! q) [0..<length xs]"
  have cyc: "snd (syncPendingInspections net w) = w'\<lparr>localInspections := Some ?xs'\<rparr>"
    using assms(2) fr by (simp add: syncPendingInspections_def xs run Let_def)
  have res: "getLocalInspections (snd (syncPendingInspections net w)) =
               (?xs', w'\<lparr>localInspections := Some ?xs'\<rparr>)"
    unfolding cyc using assms(1) fr by (simp add: getLocalInspections_def)
  have "?xs' ! p = (xs ! p)\<lparr>synced := (net UDM p = Resolved \<or> net TMS p = Resolved)\<rparr>"
    using p mem by auto
  then show ?thesis by (simp add: res xs)
qed

text \<open>
  The theorem at one pending inspection, with both portals timing out and with UDM alone
  accepting: the inspection stays pending in the first cycle and is marked in the second.
\<close>

theorem synced_iff_either_endpoint_witness:
  "\<not> getFails one_pending ''localInspections'' \<and> \<not> setFails one_pending ''localInspections'' \<and>
   \<not> getFails one_pending ''authToken'' \<and> 0 < length (fst (getLocalInspections one_pending)) \<and>
   \<not> synced (fst (getLocalInspections one_pending) ! 0) \<and>
   \<not> synced (fst (getLocalInspections (snd (syncPendingInspections net_timeout one_pending))) ! 0) \<and>
   synced (fst (getLocalInspections (snd (syncPendingInspections net_udm_only one_pending))) ! 0)"
proof -
  have h: "\<not> getFails one_pending ''localInspections''" "\<not> setFails one_pending ''localInspections''"
    "\<not> getFails one_pending ''authToken''" "0 < length (fst (getLocalInspections one_pending))"
    "\<not> synced (fst (getLocalInspections one_pending) ! 0)"
    by (simp_all add: one_pending_def inspection_world0_def getLocalInspections_def)
  have a: "\<not> synced (fst (getLocalInspections (snd (syncPendingInspections net_timeout one_pending))) ! 0)"
    using synced_iff_either_endpoint [OF h, of net_timeout] by (simp add: net_timeout_def)
  have b: "synced (fst (getLocalInspections (snd (syncPendingInspections net_udm_only one_pending))) ! 0)"
    using synced_iff_either_endpoint [OF h, of net_udm_only] by (simp add: net_udm_only_def)
  from h a b show ?thesis by blast
qed

text \<open>
  The claim as the specification words it asks for both portals. Here UDM accepts the
  upload and TMS times out, both requests having been made, and the inspection that was
  pending is stored as synced.
\<close>

theorem either_endpoint_counterexample:
  "map synced (fst (getLocalInspections one_pending)) = [False] \<and>
   net_udm_only UDM 0 = Resolved \<and> net_udm_only TMS 0 \<noteq> Resolved \<and>
   map fst (requests (snd (syncPendingInspections net_udm_only one_pending))) = [UDM, TMS] \<and>
   map synced (fst (getLocalInspections (snd (syncPendingInspections net_udm_only one_pending)))) = [True]"
  by (simp add: getLocalInspections_def syncPendingInspections_def pendingSync_def submitToUDM_def submitToTMS_def submitTo_def console_log_def Let_def
        one_pending_def inspection_world0_def net_udm_only_def)

section \<open>C2: storing the same entry twice\<close>

text \<open>
  The id \<^verbatim>\<open>master_list\<close> is set apart in what follows. An entry with that id, which an import
  can carry, is written under the key of the master list itself: the key then holds the
  record, \<^verbatim>\<open>getMasterTrackingList\<close> returns it, \<^verbatim>\<open>push\<close> throws, and no id is appended.
\<close>

lemma storeTrackingEntry_master_list_id:
  "fst (getMasterTrackingList (storeTrackingEntry empty_world entry_master)) = ParsedEntry entry_master \<and>
   console (storeTrackingEntry empty_world entry_master) = [''Store tracking entry error:''] \<and>
   fst (getAllTrackingEntries (storeTrackingEntry empty_world entry_master)) = []"
  by (simp add: storeTrackingEntry_def getAllTrackingEntries_def setItem_entry_def setItem_master_def
        getMasterTrackingList_def getItem_master_def entry_key_def master_key_def console_log_def
        Let_def empty_world_def entry_master_def)

text \<open>
  Claim C2, as the code has it. Neither the master list nor the sync queue looks for an id
  before appending. Let the store be working, the master key hold the list \<open>l\<close>, and the
  entry's id be other than \<^verbatim>\<open>master_list\<close>. Then \<^verbatim>\<open>storeTrackingEntry\<close> called twice on the
  entry leaves the master list \<open>l\<close> with the entry's id appended twice, the record under its
  key being the entry; and two scans append their two ids to the sync queue, whatever the
  ids and whatever the store does.
\<close>

theorem enqueue_appends_each_time:
  assumes "\<not> setFails w (entry_key (te_id e))" "\<not> setFails w master_key" "\<not> getFails w master_key"
    and "te_id e \<noteq> ''master_list''" and "fst (getMasterTrackingList w) = ParsedIds l"
  shows "fst (getMasterTrackingList (storeTrackingEntry (storeTrackingEntry w e) e)) =
           ParsedIds (l @ [te_id e, te_id e]) \<and>
         st_items (storeTrackingEntry (storeTrackingEntry w e) e) (entry_key (te_id e)) = Some e \<and>
         map te_id (syncQueue (snd (trackScan (snd (trackScan w sd tid now online)) sd' tid' now' online'))) =
           map te_id (syncQueue w) @ [tid, tid']"
proof -
  let ?w1 = "storeTrackingEntry w e"
  have l1: "fst (getMasterTrackingList ?w1) = ParsedIds (l @ [te_id e])"
    using assms by (rule storeTrackingEntry_working(1))
  have f: "\<not> setFails ?w1 (entry_key (te_id e))" "\<not> setFails ?w1 master_key" "\<not> getFails ?w1 master_key"
    using assms by (simp_all add: storeTrackingEntry_working)
  have a: "fst (getMasterTrackingList (storeTrackingEntry ?w1 e)) = ParsedIds (l @ [te_id e, te_id e])"
    using storeTrackingEntry_working(1) [OF f assms(4) l1] by simp
  have b: "st_items (storeTrackingEntry ?w1 e) (entry_key (te_id e)) = Some e"
    using f assms(4) l1 by (rule storeTrackingEntry_working(2))
  have c: "map te_id (syncQueue (snd (trackScan (snd (trackScan w sd tid now online)) sd' tid' now' online'))) =
           map te_id (syncQueue w) @ [tid, tid']"
    by (simp add: trackScan_def Let_def storeTrackingEntry_memory)
  from a b c show ?thesis by blast
qed

text \<open>The theorem at the empty store, whose master key reads as the empty list.\<close>

theorem enqueue_appends_each_time_witness:
  "\<not> setFails empty_world (entry_key (te_id entry1)) \<and> \<not> setFails empty_world master_key \<and>
   \<not> getFails empty_world master_key \<and> te_id entry1 \<noteq> ''master_list'' \<and>
   fst (getMasterTrackingList empty_world) = ParsedIds [] \<and>
   fst (getMasterTrackingList (storeTrackingEntry (storeTrackingEntry empty_world entry1) entry1)) =
     ParsedIds ([] @ [te_id entry1, te_id entry1]) \<and>
   st_items (storeTrackingEntry (storeTrackingEntry empty_world entry1) entry1) (entry_key (te_id entry1)) =
     Some entry1 \<and>
   map te_id (syncQueue (snd (trackScan (snd (trackScan empty_world scan1 ''t1'' 1000 True))
                                scan1 ''t2'' 2000 True))) =
     map te_id (syncQueue empty_world) @ [''t1'', ''t2'']"
proof -
  have h: "\<not> setFails empty_world (entry_key (te_id entry1))" "\<not> setFails empty_world master_key"
    "\<not> getFails empty_world master_key" "te_id entry1 \<noteq> ''master_list''"
    "fst (getMasterTrackingList empty_world) = ParsedIds []"
    by (simp_all add: empty_world_def entry1_def getMasterTrackingList_def getItem_master_def)
  from enqueue_appends_each_time [OF h, of scan1 "''t1''" 1000 True scan1 "''t2''" 2000 True] h
  show ?thesis by blast
qed

text \<open>
  The claim as the specification words it: one reference is left. Storing \<open>entry1\<close> twice
  in the empty store leaves its id in the master list twice, and so does importing twice
  an export that holds it.
\<close>

theorem enqueue_twice_counterexample:
  "te_id entry1 = ''t1'' \<and>
   fst (getMasterTrackingList (storeTrackingEntry (storeTrackingEntry empty_world entry1) entry1)) =
     ParsedIds [''t1'', ''t1''] \<and>
   fst (getMasterTrackingList
          (snd (importTrackingData (snd (importTrackingData empty_world (Some [entry1])))
                  (Some [entry1])))) = ParsedIds [''t1'', ''t1'']"
  by (simp add: importTrackingData_def storeTrackingEntry_def setItem_entry_def setItem_master_def
        getMasterTrackingList_def getItem_master_def entry_key_def master_key_def console_log_def
        Let_def empty_world_def entry1_def)

section \<open>C3: the dashboard cache\<close>

text \<open>
  Claim C3. Let the cache key hold the value \<open>v\<close> stored at \<open>storedAt\<close>, with the store
  readable and writable. A cached read at time \<open>now\<close> returns \<open>v\<close> exactly when
  \<open>now - storedAt\<close> is below the expiry, and misses otherwise. \<^verbatim>\<open>getDashboardData\<close> then
  returns \<open>v\<close> and leaves the store as it is, or, from the expiry on, returns the freshly
  generated data and stores it under the key with the time \<open>now'\<close> of storing.
\<close>

theorem cached_read_fresh_or_recomputed:
  assumes "cacheStore w (cacheKey svc) = Some \<lparr>co_data = v, co_timestamp = storedAt\<rparr>"
    and "\<not> getFails w (cacheKey svc)" and "\<not> setFails w (cacheKey svc)"
  shows "fst (getCachedData svc now w) = (if now - storedAt < cacheExpiry svc then Some v else None) \<and>
         getDashboardData svc now now' generated w =
           (if now - storedAt < cacheExpiry svc then (v, w)
            else (generated,
                  w\<lparr>cacheStore := (cacheStore w)(cacheKey svc \<mapsto>
                       \<lparr>co_data = generated, co_timestamp = now'\<rparr>)\<rparr>))"
  using assms by (simp add: getCachedData_def getDashboardData_def cacheData_def Let_def)

text \<open>
  The theorem one millisecond before the expiry of five minutes and exactly at it, for a
  value stored at time 1000.
\<close>

theorem cached_read_fresh_or_recomputed_witness:
  "cacheStore dash_world0 (cacheKey dashboardService) = Some \<lparr>co_data = ''old'', co_timestamp = 1000\<rparr> \<and>
   \<not> getFails dash_world0 (cacheKey dashboardService) \<and>
   \<not> setFails dash_world0 (cacheKey dashboardService) \<and>
   fst (getCachedData dashboardService 300999 dash_world0) = Some ''old'' \<and>
   getDashboardData dashboardService 300999 301005 ''new'' dash_world0 = (''old'', dash_world0) \<and>
   fst (getCachedData dashboardService 301000 dash_world0) = None \<and>
   getDashboardData dashboardService 301000 301005 ''new'' dash_world0 =
     (''new'', dash_world0\<lparr>cacheStore := (cacheStore dash_world0)(cacheKey dashboardService \<mapsto>
                 \<lparr>co_data = ''new'', co_timestamp = 301005\<rparr>)\<rparr>)"
proof -
  have h: "cacheStore dash_world0 (cacheKey dashboardService) =
             Some \<lparr>co_data = ''old'', co_timestamp = 1000\<rparr>"
    "\<not> getFails dash_world0 (cacheKey dashboardService)"
    "\<not> setFails dash_world0 (cacheKey dashboardService)"
    by (simp_all add: dash_world0_def dashboardService_def)
  have e: "cacheExpiry dashboardService = 300000" by (simp add: dashboardService_def)
  from cached_read_fresh_or_recomputed [OF h, of 300999 301005 "''new''"]
    cached_read_fresh_or_recomputed [OF h, of 301000 301005 "''new''"] h e
  show ?thesis by simp
qed

section \<open>C4: failed uploads during sync\<close>

text \<open>
  The loop of \<^verbatim>\<open>syncPendingEntries\<close>: one call of \<^verbatim>\<open>simulateServerSync\<close> per queued entry, in
  queue order; the entries whose call threw are the failed ones.
\<close>

lemma syncEntries_spec:
  "\<exists>w'. syncEntries rnd k es w =
          (length (filter (\<lambda>j. \<not> rnd j > 0.9) [k..<k + length es]),
           map fst (filter (\<lambda>(e, j). rnd j > 0.9) (zip es [k..<k + length es])), w') \<and>
        serverCalls w' = serverCalls w @ map te_id es \<and> syncQueue w' = syncQueue w"
proof (induction es arbitrary: k w)
  case Nil
  show ?case by simp
next
  case (Cons e es)
  have up: "[k..<k + length (e # es)] = k # [Suc k..<Suc k + length es]"
    using upt_conv_Cons [of k "Suc k + length es"] by simp
  show ?case
  proof (cases "rnd k > 0.9")
    case True
    let ?w1 = "console_log ''Failed to sync entry:'' (w\<lparr>serverCalls := serverCalls w @ [te_id e]\<rparr>)"
    from Cons.IH [of "Suc k" ?w1] obtain w' where
      ih: "syncEntries rnd (Suc k) es ?w1 =
          (length (filter (\<lambda>j. \<not> rnd j > 0.9) [Suc k..<Suc k + length es]),
           map fst (filter (\<lambda>(e, j). rnd j > 0.9) (zip es [Suc k..<Suc k + length es])), w')"
      and fr: "serverCalls w' = serverCalls ?w1 @ map te_id es" "syncQueue w' = syncQueue ?w1"
      by blast
    show ?thesis unfolding up using True ih fr
      by (simp add: simulateServerSync_def Let_def)
  next
    case False
    let ?w1 = "console_log ''Synced tracking entry:'' (w\<lparr>serverCalls := serverCalls w @ [te_id e]\<rparr>)"
    from Cons.IH [of "Suc k" ?w1] obtain w' where
      ih: "syncEntries rnd (Suc k) es ?w1 =
          (length (filter (\<lambda>j. \<not> rnd j > 0.9) [Suc k..<Suc k + length es]),
           map fst (filter (\<lambda>(e, j). rnd j > 0.9) (zip es [Suc k..<Suc k + length es])), w')"
      and fr: "serverCalls w' = serverCalls ?w1 @ map te_id es" "syncQueue w' = syncQueue ?w1"
      by blast
    show ?thesis unfolding up using False ih fr
      by (simp add: simulateServerSync_def Let_def)
  qed
qed

text \<open>
  Claim C4, as the code has it. A sync cycle of the tracking service calls the server once
  for each queued entry, in queue order, and no more: there is no retry inside the cycle
  and no backoff. The entries whose call threw make up the new queue, so whatever the
  failure they are tried again by a later cycle only; the cycle reports success and the
  number of failed entries. An upload to UDM or TMS makes one request when the token can be read and none
  otherwise, and reports success exactly when the request was made and resolved; every
  rejection comes out as a plain failure.
\<close>

theorem one_attempt_per_cycle:
  "serverCalls (snd (syncPendingEntries rnd w)) = serverCalls w @ map te_id (syncQueue w) \<and>
   syncQueue (snd (syncPendingEntries rnd w)) =
     map fst (filter (\<lambda>(e, j). rnd j > 0.9) (zip (syncQueue w) [0..<length (syncQueue w)])) \<and>
   sr_synced (fst (syncPendingEntries rnd w)) =
     length (filter (\<lambda>j. \<not> rnd j > 0.9) [0..<length (syncQueue w)]) \<and>
   sr_failed (fst (syncPendingEntries rnd w)) =
     (if syncQueue w = [] then None else Some (length (syncQueue (snd (syncPendingEntries rnd w))))) \<and>
   sr_success (fst (syncPendingEntries rnd w)) \<and>
   sub_success (fst (submitToUDM resp iw p)) = (\<not> getFails iw ''authToken'' \<and> resp = Resolved) \<and>
   sub_success (fst (submitToTMS resp iw p)) = (\<not> getFails iw ''authToken'' \<and> resp = Resolved) \<and>
   requests (snd (submitToUDM resp iw p)) =
     requests iw @ (if getFails iw ''authToken'' then [] else [(UDM, p)]) \<and>
   requests (snd (submitToTMS resp iw p)) =
     requests iw @ (if getFails iw ''authToken'' then [] else [(TMS, p)])"
proof -
  from syncEntries_spec [of rnd 0 "syncQueue w" w] obtain w' where
     run: "syncEntries rnd 0 (syncQueue w) w =
          (length (filter (\<lambda>j. \<not> rnd j > 0.9) [0..<length (syncQueue w)]),
           map fst (filter (\<lambda>(e, j). rnd j > 0.9) (zip (syncQueue w) [0..<length (syncQueue w)])), w')"
     and fr: "serverCalls w' = serverCalls w @ map te_id (syncQueue w)" by auto
  have a: "serverCalls (snd (syncPendingEntries rnd w)) = serverCalls w @ map te_id (syncQueue w)"
    using fr by (simp add: syncPendingEntries_def run Let_def)
  have b: "syncQueue (snd (syncPendingEntries rnd w)) =
     map fst (filter (\<lambda>(e, j). rnd j > 0.9) (zip (syncQueue w) [0..<length (syncQueue w)]))"
    by (simp add: syncPendingEntries_def run Let_def)
  have c: "sr_synced (fst (syncPendingEntries rnd w)) =
     length (filter (\<lambda>j. \<not> rnd j > 0.9) [0..<length (syncQueue w)])"
    by (simp add: syncPendingEntries_def run Let_def)
  have d: "sr_success (fst (syncPendingEntries rnd w))"
    by (simp add: syncPendingEntries_def run Let_def)
  have d': "sr_failed (fst (syncPendingEntries rnd w)) =
     (if syncQueue w = [] then None else Some (length (syncQueue (snd (syncPendingEntries rnd w)))))"
    by (simp add: syncPendingEntries_def run Let_def)
  have e: "sub_success (fst (submitTo ep m resp iw p)) = (\<not> getFails iw ''authToken'' \<and> resp = Resolved)"
      "requests (snd (submitTo ep m resp iw p)) =
         requests iw @ (if getFails iw ''authToken'' then [] else [(ep, p)])"
    for ep m
    by (auto simp: submitTo_def Let_def console_log_def split: response.splits)
  from a b c d d' e show ?thesis by (simp add: submitToUDM_def submitToTMS_def)
qed

text \<open>
  The claim as the specification words it fails on each count. A draw of 0.95 makes the
  upload of the one queued entry throw a network timeout: the cycle has called the server
  once, not twice, and the entry is back in the queue. A payload both portals reject with
  status 400 is not terminal: it stays pending and the next cycle posts it again. And the
  cycle's result is the same for the rejection as for a timeout.
\<close>

theorem no_retry_counterexample:
  "simulateServerSync 0.95 = Inl (Error ''Network timeout'') \<and>
   map te_id (syncQueue one_scan) = [''t1''] \<and>
   serverCalls (snd (syncPendingEntries (\<lambda>k. 0.95) one_scan)) = [''t1''] \<and>
   map te_id (syncQueue (snd (syncPendingEntries (\<lambda>k. 0.95) one_scan))) = [''t1''] \<and>
   map fst (requests (snd (syncPendingInspections net_rejecting
              (snd (syncPendingInspections net_rejecting one_pending))))) = [UDM, TMS, UDM, TMS] \<and>
   fst (syncPendingInspections net_rejecting one_pending) =
     fst (syncPendingInspections net_timeout one_pending)"
proof -
  have a: "simulateServerSync 0.95 = Inl (Error ''Network timeout'')"
    by (simp add: simulateServerSync_def)
  have b: "map te_id (syncQueue one_scan) = [''t1'']"
    by (simp add: trackScan_def storeTrackingEntry_def setItem_entry_def setItem_master_def getMasterTrackingList_def getItem_master_def entry_key_def master_key_def js_or_def console_log_def Let_def
          syncPendingEntries_def simulateServerSync_def empty_world_def scan1_def one_scan_def)
  have c: "serverCalls (snd (syncPendingEntries (\<lambda>k. 0.95) one_scan)) = [''t1'']"
    by (simp add: trackScan_def storeTrackingEntry_def setItem_entry_def setItem_master_def getMasterTrackingList_def getItem_master_def entry_key_def master_key_def js_or_def console_log_def Let_def
          syncPendingEntries_def simulateServerSync_def empty_world_def scan1_def one_scan_def)
  have d: "map te_id (syncQueue (snd (syncPendingEntries (\<lambda>k. 0.95) one_scan))) = [''t1'']"
    by (simp add: trackScan_def storeTrackingEntry_def setItem_entry_def setItem_master_def getMasterTrackingList_def getItem_master_def entry_key_def master_key_def js_or_def console_log_def Let_def
          syncPendingEntries_def simulateServerSync_def empty_world_def scan1_def one_scan_def)
  have e: "map fst (requests (snd (syncPendingInspections net_rejecting
              (snd (syncPendingInspections net_rejecting one_pending))))) = [UDM, TMS, UDM, TMS]"
    by (simp add: getLocalInspections_def syncPendingInspections_def pendingSync_def submitToUDM_def submitToTMS_def submitTo_def console_log_def Let_def
          one_pending_def inspection_world0_def net_rejecting_def net_timeout_def)
  have f: "fst (syncPendingInspections net_rejecting one_pending) =
     fst (syncPendingInspections net_timeout one_pending)"
    by (simp add: getLocalInspections_def syncPendingInspections_def pendingSync_def submitToUDM_def submitToTMS_def submitTo_def console_log_def Let_def
          one_pending_def inspection_world0_def net_rejecting_def net_timeout_def)
  from a b c d e f show ?thesis by blast
qed

section \<open>C5: the two portals are attempted independently\<close>

text \<open>
  Preparing the payload signs it, and \<^verbatim>\<open>btoa\<close> throws on a code unit above 255. The
  preparation returns a payload exactly for a name whose units are all in Latin-1.
\<close>

lemma prepareInspectionPayload_returns:
  "(\<exists>payload. prepareInspectionPayload newId now sigNow d = Inr payload) =
     list_all (\<lambda>u. u \<le> 255) (inspectorName d)"
  by (auto simp: prepareInspectionPayload_def generateInspectorSignature_def list_all_iff list_ex_iff
        not_le not_less)

text \<open>
  When the preparation throws, the \<^verbatim>\<open>catch\<close> branch of \<^verbatim>\<open>submitInspection\<close> is reached before
  either portal was tried: the call fails and no request was made. So it is for the form
  signed in Devanagari.
\<close>

lemma submitInspection_signature_throws:
  assumes "validateInspectionData (env_isNaN env) d = []"
    and "prepareInspectionPayload (env_inspectionId env) (env_now env) (env_signatureTime env) d = Inl err"
  shows "submitInspection env w d =
           (SubmitFailed ''Failed to submit inspection'', console_log ''Inspection submission error:'' w)"
    and "requests (snd (submitInspection env w d)) = requests w"
  using assms by (simp_all add: submitInspection_def Let_def console_log_def)

lemma submitInspection_devanagari:
  "submitInspection env_udm_down inspection_world0 form_devanagari =
     (SubmitFailed ''Failed to submit inspection'',
      console_log ''Inspection submission error:'' inspection_world0) \<and>
   requests (snd (submitInspection env_udm_down inspection_world0 form_devanagari)) = []"
proof -
  have v: "isValidQRCode ''RC-L1-20240101-VND001-00001''"
    by (simp add: isValidQRCode_def digits_exactly_def is_digit_def is_word_char_def Let_def)
  have h: "validateInspectionData (env_isNaN env_udm_down) form_devanagari = []"
    using v by (simp add: validateInspectionData_def form_devanagari_def form1_def)
  have t: "prepareInspectionPayload (env_inspectionId env_udm_down) (env_now env_udm_down)
             (env_signatureTime env_udm_down) form_devanagari = Inl (Error ''InvalidCharacterError'')"
    by (simp add: prepareInspectionPayload_def generateInspectorSignature_def form_devanagari_def)
  show ?thesis
    using submitInspection_signature_throws [OF h t, of inspection_world0]
    by (simp add: inspection_world0_def)
qed

text \<open>
  Claim C5. For a form that passes validation and whose payload the preparation returns,
  with the token readable, \<^verbatim>\<open>submitInspection\<close> posts the payload to UDM and then to TMS
  whatever UDM did with it, and the result carries the two outcomes apart: \<open>udmStatus\<close> says
  whether UDM resolved, \<open>tmsStatus\<close> whether TMS did.
\<close>

theorem both_endpoints_attempted:
  assumes "validateInspectionData (env_isNaN env) d = []" and "\<not> getFails w ''authToken''"
    and "prepareInspectionPayload (env_inspectionId env) (env_now env) (env_signatureTime env) d =
           Inr payload"
  shows "\<exists>sub w'. submitInspection env w d = (Submitted sub, w') \<and>
           udmStatus sub = (env_udm env = Resolved) \<and> tmsStatus sub = (env_tms env = Resolved) \<and>
           requests w' = requests w @ [(UDM, payload), (TMS, payload)]"
proof -
  obtain r1 w1 where u: "submitTo UDM ''UDM submission error:'' (env_udm env) w payload = (r1, w1)"
    by (cases "submitTo UDM ''UDM submission error:'' (env_udm env) w payload")
  obtain r2 w2 where t: "submitTo TMS ''TMS submission error:'' (env_tms env) w1 payload = (r2, w2)"
    by (cases "submitTo TMS ''TMS submission error:'' (env_tms env) w1 payload")
  have u': "sub_success r1 = (env_udm env = Resolved)" "requests w1 = requests w @ [(UDM, payload)]"
    "getFails w1 = getFails w"
    using submitTo_result [OF assms(2), of UDM "''UDM submission error:''" "env_udm env" payload] u
    by simp_all
  have g1: "\<not> getFails w1 ''authToken''" using assms(2) u' by simp
  have t': "sub_success r2 = (env_tms env = Resolved)" "requests w2 = requests w1 @ [(TMS, payload)]"
    using submitTo_result [OF g1, of TMS "''TMS submission error:''" "env_tms env" payload] t
    by simp_all
  have st: "requests (storeInspectionLocally x y) = requests x" for x y
    by (simp add: storeInspectionLocally_def Let_def console_log_def)
  have sr: "requests (storeReportLocally x y) = requests x" for x y
    by (simp add: storeReportLocally_def Let_def console_log_def)
  show ?thesis
    using assms(1,3) u t u' t'
    by (simp add: submitInspection_def submitToUDM_def submitToTMS_def Let_def
          generateInspectionReport_def st sr)
qed

text \<open>The theorem for the sample form when the upload to UDM times out and TMS accepts.\<close>

theorem both_endpoints_attempted_witness:
  "validateInspectionData (env_isNaN env_udm_down) form1 = [] \<and>
   \<not> getFails inspection_world0 ''authToken'' \<and>
   env_udm env_udm_down \<noteq> Resolved \<and>
   (\<exists>payload. prepareInspectionPayload (env_inspectionId env_udm_down) (env_now env_udm_down)
                 (env_signatureTime env_udm_down) form1 = Inr payload \<and>
      (\<exists>sub w'. submitInspection env_udm_down inspection_world0 form1 = (Submitted sub, w') \<and>
         \<not> udmStatus sub \<and> tmsStatus sub \<and> requests w' = [(UDM, payload), (TMS, payload)]))"
proof -
  have v: "isValidQRCode ''RC-L1-20240101-VND001-00001''"
    by (simp add: isValidQRCode_def digits_exactly_def is_digit_def is_word_char_def Let_def)
  have h: "validateInspectionData (env_isNaN env_udm_down) form1 = []"
    "\<not> getFails inspection_world0 ''authToken''"
    using v by (simp_all add: validateInspectionData_def form1_def inspection_world0_def js_str_def)
  obtain payload where p: "prepareInspectionPayload (env_inspectionId env_udm_down) (env_now env_udm_down)
                 (env_signatureTime env_udm_down) form1 = Inr payload"
    by (simp add: prepareInspectionPayload_def form1_signed)
  have e: "env_udm env_udm_down \<noteq> Resolved" "env_tms env_udm_down = Resolved"
    "requests inspection_world0 = []"
    by (simp_all add: env_udm_down_def inspection_world0_def)
  from both_endpoints_attempted [OF h p] obtain sub w' where
    "submitInspection env_udm_down inspection_world0 form1 = (Submitted sub, w')"
    "udmStatus sub = (env_udm env_udm_down = Resolved)"
    "tmsStatus sub = (env_tms env_udm_down = Resolved)"
    "requests w' = requests inspection_world0 @ [(UDM, payload), (TMS, payload)]"
    by auto
  with h e p show ?thesis by simp
qed

section \<open>C6: a capture survives a failing store\<close>

text \<open>
  Claim C6. If the store rejects the write of the entry or the write of the master list
  while \<^verbatim>\<open>trackScan\<close> enqueues, the call still returns the entry it created, with the id it
  was given; the entry is in the in-memory cache under its id and at the end of the sync
  queue; and the last thing on the console is the storage error, which was logged and not
  thrown.
\<close>

theorem trackScan_survives_storage_fault:
  assumes "setFails w (entry_key tid) \<or> setFails w master_key"
  shows "\<exists>entry w'. trackScan w sd tid now online = (Some entry, w') \<and> te_id entry = tid \<and>
           te_scanId entry = sd_id sd \<and> trackingCache w' tid = Some entry \<and>
           syncQueue w' = syncQueue w @ [entry] \<and>
           last (console w') = ''Store tracking entry error:''"
  using assms storeTrackingEntry_fault_logged
          [of "w\<lparr>trackingCache := (trackingCache w)(tid \<mapsto> e)\<rparr>" e for e]
  by (simp add: trackScan_def Let_def storeTrackingEntry_memory)

theorem trackScan_survives_storage_fault_witness:
  "(setFails faulty_world (entry_key ''t1'') \<or> setFails faulty_world master_key) \<and>
   (\<exists>entry w'. trackScan faulty_world scan1 ''t1'' 1000 True = (Some entry, w') \<and> te_id entry = ''t1'' \<and>
      te_scanId entry = sd_id scan1 \<and> trackingCache w' ''t1'' = Some entry \<and>
      syncQueue w' = syncQueue faulty_world @ [entry] \<and>
      last (console w') = ''Store tracking entry error:'')"
proof -
  have h: "setFails faulty_world (entry_key ''t1'') \<or> setFails faulty_world master_key"
    by (simp add: faulty_world_def empty_world_def)
  from trackScan_survives_storage_fault [OF h, of scan1 1000 True] h show ?thesis by blast
qed

section \<open>C7: what persisting and clearing remove\<close>

lemma loadEntries_frame:
  "getFails (snd (loadEntries w ids)) = getFails w \<and> st_items (snd (loadEntries w ids)) = st_items w"
  by (induction ids arbitrary: w) (auto simp: getItem_entry_def case_prod_beta split: option.splits)


lemma removeEntries_working:
  assumes "\<forall>k. \<not> removeFails w k"
  shows "removeEntries w ids =
           (None, w\<lparr>st_items := (\<lambda>k. if k \<in> entry_key ` set ids then None else st_items w k),
                     st_master := (if ''master_list'' \<in> set ids then None else st_master w)\<rparr>)"
  using assms
proof (induction ids arbitrary: w)
  case Nil
  show ?case by simp
next
  case (Cons i ids)
  let ?w1 = "w\<lparr>st_items := (st_items w)(entry_key i := None),
               st_master := (if entry_key i = master_key then None else st_master w)\<rparr>"
  have r: "removeItem_entry w (entry_key i) = Inr ?w1"
    using Cons.prems by (simp add: removeItem_entry_def)
  have "\<forall>k. \<not> removeFails ?w1 k" using Cons.prems by simp
  from Cons.IH [OF this] have
    ih: "removeEntries ?w1 ids =
           (None, ?w1\<lparr>st_items := (\<lambda>k. if k \<in> entry_key ` set ids then None else st_items ?w1 k),
                       st_master := (if ''master_list'' \<in> set ids then None else st_master ?w1)\<rparr>)" .
  have f: "(\<lambda>k. if k \<in> entry_key ` set ids then None else st_items ?w1 k) =
           (\<lambda>k. if k \<in> entry_key ` set (i # ids) then None else st_items w k)"
    by (auto simp: fun_eq_iff)
  show ?case unfolding removeEntries.simps r sum.case ih f by simp
qed

text \<open>
  The bulk clear on a store that removes and reads, whose master key holds the list \<open>l\<close>:
  the record of every id of \<open>l\<close> is removed and no other, the master key is removed, and the
  cache and the queue are emptied.
\<close>

lemma clearTrackingData_working:
  assumes "\<forall>k. \<not> removeFails w k" and "\<not> getFails w master_key"
    and "fst (getMasterTrackingList w) = ParsedIds l"
  shows "clearTrackingData w =
           (True, w\<lparr>trackingCache := Map.empty, syncQueue := [],
                     st_items := (\<lambda>k. if k \<in> entry_key ` set l then None else st_items w k),
                     st_master := None\<rparr>)"
proof -
  have m: "getMasterTrackingList w = (ParsedIds l, w)" and n: "st_items w master_key = None"
    using assms(2,3)
    by (auto simp: getMasterTrackingList_def getItem_master_def split: option.splits)
  have f: "(\<lambda>k. if k \<in> entry_key ` set l then None else st_items w k)(master_key := None) =
           (\<lambda>k. if k \<in> entry_key ` set l then None else st_items w k)"
    using n by (auto simp: fun_eq_iff)
  show ?thesis
    using assms(1) f
    by (simp add: clearTrackingData_def m removeEntries_working [OF assms(1)] removeItem_master_def)
qed

lemma storeTrackingEntry_items:
  assumes "\<not> getFails w master_key" and "te_id e \<noteq> ''master_list''"
    and "fst (getMasterTrackingList w) = ParsedIds l"
  shows "st_items (storeTrackingEntry w e) = st_items w \<or>
         st_items (storeTrackingEntry w e) = (st_items w)(entry_key (te_id e) \<mapsto> e)"
proof -
  have n: "st_items w master_key = None"
    using assms(1,3)
    by (auto simp: getMasterTrackingList_def getItem_master_def split: option.splits)
  have f: "((st_items w)(entry_key (te_id e) \<mapsto> e))(master_key := None) =
           (st_items w)(entry_key (te_id e) \<mapsto> e)"
    using n assms(2) by (auto simp: fun_eq_iff)
  show ?thesis
    using assms n f
    by (auto simp: storeTrackingEntry_def setItem_entry_def setItem_master_def Let_def
          getMasterTrackingList_def getItem_master_def
          split: prod.splits option.splits if_splits parsed.splits)
qed

lemma storeTrackingEntry_master:
  assumes "\<not> getFails w master_key" and "te_id e \<noteq> ''master_list''"
    and "fst (getMasterTrackingList w) = ParsedIds l"
  shows "fst (getMasterTrackingList (storeTrackingEntry w e)) = ParsedIds l \<or>
         fst (getMasterTrackingList (storeTrackingEntry w e)) = ParsedIds (l @ [te_id e])"
  using assms
  by (auto simp: storeTrackingEntry_def setItem_entry_def setItem_master_def Let_def
        getMasterTrackingList_def getItem_master_def
        split: prod.splits option.splits if_splits parsed.splits)

text \<open>
  Claim C7, as the code has it. With the store working, persisting an inspection keeps it
  and, of the inspections stored before, the most recent 99: the stored list becomes the
  last 100 of the old list with the new payload appended, so older inspections are dropped
  whatever their \<open>synced\<close> flag. Reports are kept the same way, the last 50.

  For the tracking entries, let the master key be readable and hold the list \<open>l\<close>, and let
  the entry's id be other than \<^verbatim>\<open>master_list\<close>. Storing the entry removes no record and no
  id: the records are those of before, with at most the entry written under its own key,
  and the master list is \<open>l\<close>, with at most the entry's id appended. \<^verbatim>\<open>clearTrackingData\<close>,
  the bulk clear, on a store that removes every key, succeeds: it removes the record of
  every id of \<open>l\<close> and no other record, removes the master key, and empties the cache and
  the queue, so that no entry is left to list.
\<close>

theorem persisting_keeps_recent_window:
  assumes "\<not> getFails w ''localInspections''" "\<not> setFails w ''localInspections''"
    and "\<not> getFails w ''inspectionReports''" "\<not> setFails w ''inspectionReports''"
    and "\<not> getFails tw master_key" and "\<forall>k. \<not> removeFails tw k"
    and "te_id e \<noteq> ''master_list''" and "fst (getMasterTrackingList tw) = ParsedIds l"
  shows "fst (getLocalInspections (storeInspectionLocally w p)) =
           drop (length (fst (getLocalInspections w)) + 1 - 100) (fst (getLocalInspections w) @ [p]) \<and>
         inspectionReports (storeReportLocally w r) =
           Some (drop (length (case inspectionReports w of None \<Rightarrow> [] | Some l \<Rightarrow> l) + 1 - 50)
                  ((case inspectionReports w of None \<Rightarrow> [] | Some l \<Rightarrow> l) @ [r])) \<and>
         dom (st_items tw) \<subseteq> dom (st_items (storeTrackingEntry tw e)) \<and>
         (st_items (storeTrackingEntry tw e) = st_items tw \<or>
          st_items (storeTrackingEntry tw e) = (st_items tw)(entry_key (te_id e) \<mapsto> e)) \<and>
         (fst (getMasterTrackingList (storeTrackingEntry tw e)) = ParsedIds l \<or>
          fst (getMasterTrackingList (storeTrackingEntry tw e)) = ParsedIds (l @ [te_id e])) \<and>
         clearTrackingData tw =
           (True, tw\<lparr>trackingCache := Map.empty, syncQueue := [],
                      st_items := (\<lambda>k. if k \<in> entry_key ` set l then None else st_items tw k),
                      st_master := None\<rparr>) \<and>
         fst (getAllTrackingEntries (snd (clearTrackingData tw))) = []"
proof -
  have a: "fst (getLocalInspections (storeInspectionLocally w p)) =
           drop (length (fst (getLocalInspections w)) + 1 - 100) (fst (getLocalInspections w) @ [p])"
    using assms(1,2)
    by (auto simp: getLocalInspections_def storeInspectionLocally_def Let_def split: option.splits)
  have b: "inspectionReports (storeReportLocally w r) =
           Some (drop (length (case inspectionReports w of None \<Rightarrow> [] | Some l \<Rightarrow> l) + 1 - 50)
                  ((case inspectionReports w of None \<Rightarrow> [] | Some l \<Rightarrow> l) @ [r]))"
    using assms(3,4)
    by (auto simp: storeReportLocally_def Let_def split: option.splits)
  note c = storeTrackingEntry_keeps_items [OF assms(5), of e]
  note c' = storeTrackingEntry_items [OF assms(5,7,8)]
  note d = storeTrackingEntry_master [OF assms(5,7,8)]
  note f = clearTrackingData_working [OF assms(6,5,8)]
  have n: "st_items tw master_key = None"
    using assms(5,8)
    by (auto simp: getMasterTrackingList_def getItem_master_def split: option.splits)
  have g: "fst (getAllTrackingEntries (snd (clearTrackingData tw))) = []"
    unfolding f using n
    by (simp add: getAllTrackingEntries_def getMasterTrackingList_def getItem_master_def
          case_prod_beta image_iff)
  from a b c c' d f g show ?thesis by blast
qed

text \<open>The theorem at the full store of 100 inspections and the tracking world of two scans.\<close>

theorem persisting_keeps_recent_window_witness:
  "\<not> getFails full_store ''localInspections'' \<and> \<not> setFails full_store ''localInspections'' \<and>
   \<not> getFails full_store ''inspectionReports'' \<and> \<not> setFails full_store ''inspectionReports'' \<and>
   \<not> getFails two_scans master_key \<and> (\<forall>k. \<not> removeFails two_scans k) \<and>
   te_id entry1 \<noteq> ''master_list'' \<and>
   fst (getMasterTrackingList two_scans) = ParsedIds [''t1'', ''t2''] \<and>
   fst (getLocalInspections (storeInspectionLocally full_store (numbered 100))) =
     drop 1 (map numbered [0..<100] @ [numbered 100]) \<and>
   dom (st_items two_scans) \<subseteq> dom (st_items (storeTrackingEntry two_scans entry1)) \<and>
   fst (clearTrackingData two_scans) \<and>
   st_master (snd (clearTrackingData two_scans)) = None \<and>
   st_items (snd (clearTrackingData two_scans)) (entry_key ''t1'') = None \<and>
   st_items (snd (clearTrackingData two_scans)) (entry_key ''t2'') = None \<and>
   syncQueue (snd (clearTrackingData two_scans)) = [] \<and>
   fst (getAllTrackingEntries (snd (clearTrackingData two_scans))) = []"
proof -
  have h: "\<not> getFails full_store ''localInspections''" "\<not> setFails full_store ''localInspections''"
    "\<not> getFails full_store ''inspectionReports''" "\<not> setFails full_store ''inspectionReports''"
    by (simp_all add: full_store_def inspection_world0_def)
  have g: "\<not> getFails two_scans master_key" "\<forall>k. \<not> removeFails two_scans k"
    "te_id entry1 \<noteq> ''master_list''"
    "fst (getMasterTrackingList two_scans) = ParsedIds [''t1'', ''t2'']"
    by (simp_all add: trackScan_def storeTrackingEntry_def setItem_entry_def setItem_master_def
          getMasterTrackingList_def getItem_master_def entry_key_def master_key_def js_or_def
          console_log_def Let_def empty_world_def scan1_def one_scan_def two_scans_def entry1_def)
  have l: "fst (getLocalInspections full_store) = map numbered [0..<100]"
    by (simp add: getLocalInspections_def full_store_def inspection_world0_def)
  note t = persisting_keeps_recent_window [OF h g, of "numbered 100"]
  have a: "fst (getLocalInspections (storeInspectionLocally full_store (numbered 100))) =
             drop 1 (map numbered [0..<100] @ [numbered 100])"
    using t l by simp
  have b: "dom (st_items two_scans) \<subseteq> dom (st_items (storeTrackingEntry two_scans entry1))"
    using t by blast
  have c: "clearTrackingData two_scans =
             (True, two_scans\<lparr>trackingCache := Map.empty, syncQueue := [],
                st_items := (\<lambda>k. if k \<in> entry_key ` set [''t1'', ''t2''] then None
                                 else st_items two_scans k),
                st_master := None\<rparr>)"
    using t by blast
  have d: "fst (getAllTrackingEntries (snd (clearTrackingData two_scans))) = []"
    using t by blast
  have e: "fst (clearTrackingData two_scans)" "st_master (snd (clearTrackingData two_scans)) = None"
    "st_items (snd (clearTrackingData two_scans)) (entry_key ''t1'') = None"
    "st_items (snd (clearTrackingData two_scans)) (entry_key ''t2'') = None"
    "syncQueue (snd (clearTrackingData two_scans)) = []"
    unfolding c by simp_all
  from h g a b d e show ?thesis by blast
qed

text \<open>
  The claim as the specification words it: persisting never discards an entry that is not
  yet synced. With 100 inspections stored, none of them synced, persisting one more leaves
  the oldest of them out of the store.
\<close>

theorem window_counterexample:
  "\<not> synced (numbered 0) \<and>
   numbered 0 \<in> set (fst (getLocalInspections full_store)) \<and>
   numbered 0 \<notin> set (fst (getLocalInspections (storeInspectionLocally full_store (numbered 100))))"
proof -
  have a: "fst (getLocalInspections full_store) = map numbered [0..<100]"
    by (simp add: getLocalInspections_def full_store_def inspection_world0_def)
  have "fst (getLocalInspections (storeInspectionLocally full_store (numbered 100))) =
          drop 1 (map numbered [0..<100] @ [numbered 100])"
    by (simp add: getLocalInspections_def storeInspectionLocally_def full_store_def
          inspection_world0_def Let_def)
  also have "\<dots> = map numbered [1..<101]"
  proof -
    have "[1..<101] = [1..<100] @ [100::nat]"
      using upt_Suc_append [of 1 100] by simp
    then show ?thesis by (simp add: drop_map drop_upt)
  qed
  finally have b: "fst (getLocalInspections (storeInspectionLocally full_store (numbered 100))) =
                     map numbered [1..<101]" .
  have inj: "numbered 0 \<noteq> numbered n" if "1 \<le> n" for n
  proof
    assume "numbered 0 = numbered n"
    then have "inspectionId (numbered 0) = inspectionId (numbered n)" by simp
    with that show False by simp
  qed
  have c: "numbered 0 \<notin> set (map numbered [1..<101])"
  proof
    assume "numbered 0 \<in> set (map numbered [1..<101])"
    then obtain n where "1 \<le> n" "numbered 0 = numbered n" by auto
    with inj show False by blast
  qed
  have d: "numbered 0 \<in> set (map numbered [0..<100])" by simp
  show ?thesis using a b c d by simp
qed

section \<open>C8: listing the entries\<close>








section \<open>C9: parsing a QR code\<close>

text \<open>
  A property of \<^verbatim>\<open>{...base, ...extra}\<close>: the value \<open>extra\<close> gives the name, the last one if
  the list gives several, and that of \<open>base\<close> for a name \<open>extra\<close> does not carry.
\<close>

lemma obj_spread_get:
  "obj_get (obj_spread base extra) k =
     (if k \<in> fst ` set extra then map_of (rev extra) k else obj_get base k)"
proof (induction extra arbitrary: base)
  case Nil
  show ?case by (simp add: obj_spread_def)
next
  case (Cons a extra)
  obtain k' v' where a: "a = (k', v')" by (cases a)
  have step: "obj_spread base (a # extra) = obj_spread (AList.update k' v' base) extra"
    by (simp add: obj_spread_def a)
  have ap: "map_of (rev extra @ [(k', v')]) x =
    (case map_of (rev extra) x of None \<Rightarrow> (if x = k' then Some v' else None) | Some y \<Rightarrow> Some y)"
    for x
    unfolding map_of_append map_add_def by (simp split: option.splits)
  have r: "(map_of (rev extra) x = None) = (x \<notin> fst ` set extra)" for x
    by (simp add: map_of_eq_None_iff)
  have m: "x \<in> fst ` set extra \<Longrightarrow> map_of (rev extra @ [(k', v')]) x = map_of (rev extra) x"
    for x
    unfolding ap using r [of x] by (cases "map_of (rev extra) x") simp_all
  have n: "x \<notin> fst ` set extra \<Longrightarrow> map_of (rev extra @ [(k', v')]) x = map_of [(k', v')] x"
    for x
    unfolding ap using r [of x] by (cases "map_of (rev extra) x") simp_all
  show ?case
    unfolding step Cons.IH
    by (cases "k \<in> fst ` set extra")
       (auto simp: a m n obj_get_def update_conv simp del: map_of_append)
qed

lemma obj_spread_present:
  "distinct (map fst extra) \<Longrightarrow> (k, v) \<in> set extra \<Longrightarrow> obj_get (obj_spread base extra) k = Some v"
proof -
  assume d: "distinct (map fst extra)" and m: "(k, v) \<in> set extra"
  have "distinct (map fst (rev extra))" using d by (metis distinct_rev rev_map)
  moreover have "(k, v) \<in> set (rev extra)" using m by simp
  ultimately have "map_of (rev extra) k = Some v" by (rule map_of_is_SomeI)
  moreover have "k \<in> fst ` set extra" using m by force
  ultimately show ?thesis by (simp add: obj_spread_get)
qed

lemma mock_keys:
  "getMockFittingDetails r i q = Inr d \<Longrightarrow> fst ` set d \<inter> set parsedKeys = {}"
  by (auto simp: getMockFittingDetails_def Let_def parsedKeys_def split: option.splits)

lemma mock_defined:
  "5 \<le> length (js_split CHR ''-'' q) \<Longrightarrow> \<exists>d. getMockFittingDetails r i q = Inr d"
  by (auto simp: getMockFittingDetails_def Let_def nth_part_def)

text \<open>
  For a code of five parts or more \<^verbatim>\<open>getFittingDetails\<close> returns: the portal's details when
  the token was read and the portal answered, and the mock details otherwise, which carry
  none of the five parsed names.
\<close>

lemma getFittingDetails_cases:
  assumes "5 \<le> length (js_split CHR ''-'' q)"
  shows "\<exists>details w'. getFittingDetails env w q = (Inr details, w') \<and>
           (\<forall>det. \<not> getFails w ''authToken'' \<and> qe_lookup env = Found det \<longrightarrow> details = det) \<and>
           (getFails w ''authToken'' \<or> (\<exists>msg. qe_lookup env = LookupRejected msg) \<longrightarrow>
              fst ` set details \<inter> set parsedKeys = {})"
proof -
  obtain m where m: "getMockFittingDetails (qe_random env) (qe_mockId env) q = Inr m"
    using mock_defined [OF assms(1)] by blast
  have mk: "fst ` set m \<inter> set parsedKeys = {}" using mock_keys [OF m] .
  show ?thesis
    using m mk
    by (cases "qe_lookup env") (auto simp: getFittingDetails_def Let_def)
qed

text \<open>
  Claim C9, as the code has it. A string that splits on \<^verbatim>\<open>-\<close> into fewer than five parts,
  or whose first part is none of RC, LN, RP and SL, gets a failure result with a message,
  and the world is returned as it was: no lookup was made.

  For any other string \<^verbatim>\<open>getFittingDetails\<close> returns some details and the result is a
  success. Each of \<^verbatim>\<open>typeCode\<close>, \<^verbatim>\<open>lotNumber\<close>, \<^verbatim>\<open>manufactureDate\<close>, \<^verbatim>\<open>vendorCode\<close> and
  \<^verbatim>\<open>serialNumber\<close>, taken by itself, is the part of the code at its position, unless the
  details carry a property of that name: then it has the details' value, since the details
  are spread into the object last. The details are the portal's when the token was read
  and the portal answered; otherwise they are the mock details, which carry none of the
  five names, so that all five are the parts. Any property of the portal's details is in
  the result with the portal's value.
\<close>

theorem parse_rejects_or_splits:
  "(length (js_split CHR ''-'' qr) < 5 \<or> js_split CHR ''-'' qr ! 0 \<notin> set validTypes \<longrightarrow>
      (\<exists>msg. parseQRCode env w qr = (ParseFailure msg, w))) \<and>
   (5 \<le> length (js_split CHR ''-'' qr) \<and> js_split CHR ''-'' qr ! 0 \<in> set validTypes \<longrightarrow>
      (\<exists>details d w'.
         getFittingDetails env w qr = (Inr details, w') \<and>
         parseQRCode env w qr = (ParseSuccess d, w') \<and>
         map (obj_get d) parsedKeys =
           map (\<lambda>i. if parsedKeys ! i \<in> fst ` set details
                     then map_of (rev details) (parsedKeys ! i)
                     else Some (JStr (js_split CHR ''-'' qr ! i))) [0, 1, 2, 3, 4] \<and>
         (\<forall>det. \<not> getFails w ''authToken'' \<and> qe_lookup env = Found det \<longrightarrow> details = det) \<and>
         (getFails w ''authToken'' \<or> (\<exists>msg. qe_lookup env = LookupRejected msg) \<longrightarrow>
            map (obj_get d) parsedKeys =
              map (\<lambda>i. Some (JStr (js_split CHR ''-'' qr ! i))) [0, 1, 2, 3, 4]))) \<and>
   (5 \<le> length (js_split CHR ''-'' qr) \<and> js_split CHR ''-'' qr ! 0 \<in> set validTypes \<and>
    \<not> getFails w ''authToken'' \<and> qe_lookup env = Found det \<and> distinct (map fst det) \<and>
    (k, v) \<in> set det \<longrightarrow>
      (\<exists>d w'. parseQRCode env w qr = (ParseSuccess d, w') \<and> obj_get d k = Some v))"
proof (intro conjI impI)
  assume "length (js_split CHR ''-'' qr) < 5 \<or> js_split CHR ''-'' qr ! 0 \<notin> set validTypes"
  then show "\<exists>msg. parseQRCode env w qr = (ParseFailure msg, w)"
    by (auto simp: parseQRCode_def Let_def)
next
  assume a: "5 \<le> length (js_split CHR ''-'' qr) \<and> js_split CHR ''-'' qr ! 0 \<in> set validTypes"
  then obtain details w' where g: "getFittingDetails env w qr = (Inr details, w')"
     and pd: "\<forall>det. \<not> getFails w ''authToken'' \<and> qe_lookup env = Found det \<longrightarrow> details = det"
     and mk: "getFails w ''authToken'' \<or> (\<exists>msg. qe_lookup env = LookupRejected msg) \<longrightarrow>
                fst ` set details \<inter> set parsedKeys = {}"
    using getFittingDetails_cases [of qr env w] by blast
  let ?base = "[(''qrCode'', JStr qr),
                (''type'', getFittingTypeName (js_split CHR ''-'' qr ! 0)),
                (''typeCode'', JStr (js_split CHR ''-'' qr ! 0)),
                (''lotNumber'', JStr (js_split CHR ''-'' qr ! 1)),
                (''manufactureDate'', JStr (js_split CHR ''-'' qr ! 2)),
                (''vendorCode'', JStr (js_split CHR ''-'' qr ! 3)),
                (''serialNumber'', JStr (js_split CHR ''-'' qr ! 4))]"
  have p: "parseQRCode env w qr = (ParseSuccess (obj_spread ?base details), w')"
    using a g by (simp add: parseQRCode_def Let_def)
  have base: "map (obj_get ?base) parsedKeys =
                map (\<lambda>i. Some (JStr (js_split CHR ''-'' qr ! i))) [0, 1, 2, 3, 4]"
    by (simp add: parsedKeys_def obj_get_def)
  have e: "map (obj_get (obj_spread ?base details)) parsedKeys =
           map (\<lambda>i. if parsedKeys ! i \<in> fst ` set details
                     then map_of (rev details) (parsedKeys ! i)
                     else Some (JStr (js_split CHR ''-'' qr ! i))) [0, 1, 2, 3, 4]"
    using base by (simp add: obj_spread_get parsedKeys_def)
  have f: "map (obj_get (obj_spread ?base details)) parsedKeys =
             map (\<lambda>i. Some (JStr (js_split CHR ''-'' qr ! i))) [0, 1, 2, 3, 4]"
    if "getFails w ''authToken'' \<or> (\<exists>msg. qe_lookup env = LookupRejected msg)"
  proof -
    from mk that have "fst ` set details \<inter> set parsedKeys = {}" by blast
    then have "k \<notin> fst ` set details" if "k \<in> set parsedKeys" for k using that by blast
    then have "\<forall>i \<in> set [0, 1, 2, 3, 4]. parsedKeys ! i \<notin> fst ` set details"
      by (simp add: parsedKeys_def)
    then show ?thesis unfolding e by simp
  qed
  from g p e pd f
  show "\<exists>details d w'.
         getFittingDetails env w qr = (Inr details, w') \<and>
         parseQRCode env w qr = (ParseSuccess d, w') \<and>
         map (obj_get d) parsedKeys =
           map (\<lambda>i. if parsedKeys ! i \<in> fst ` set details
                     then map_of (rev details) (parsedKeys ! i)
                     else Some (JStr (js_split CHR ''-'' qr ! i))) [0, 1, 2, 3, 4] \<and>
         (\<forall>det. \<not> getFails w ''authToken'' \<and> qe_lookup env = Found det \<longrightarrow> details = det) \<and>
         (getFails w ''authToken'' \<or> (\<exists>msg. qe_lookup env = LookupRejected msg) \<longrightarrow>
            map (obj_get d) parsedKeys =
              map (\<lambda>i. Some (JStr (js_split CHR ''-'' qr ! i))) [0, 1, 2, 3, 4])"
    by blast
next
  assume a: "5 \<le> length (js_split CHR ''-'' qr) \<and> js_split CHR ''-'' qr ! 0 \<in> set validTypes \<and>
    \<not> getFails w ''authToken'' \<and> qe_lookup env = Found det \<and> distinct (map fst det) \<and>
    (k, v) \<in> set det"
  let ?base = "[(''qrCode'', JStr qr),
                (''type'', getFittingTypeName (js_split CHR ''-'' qr ! 0)),
                (''typeCode'', JStr (js_split CHR ''-'' qr ! 0)),
                (''lotNumber'', JStr (js_split CHR ''-'' qr ! 1)),
                (''manufactureDate'', JStr (js_split CHR ''-'' qr ! 2)),
                (''vendorCode'', JStr (js_split CHR ''-'' qr ! 3)),
                (''serialNumber'', JStr (js_split CHR ''-'' qr ! 4))]"
  have p: "parseQRCode env w qr = (ParseSuccess (obj_spread ?base det), w\<lparr>lookups := lookups w @ [qr]\<rparr>)"
    using a by (simp add: parseQRCode_def getFittingDetails_def Let_def)
  have "obj_get (obj_spread ?base det) k = Some v"
    using a by (simp add: obj_spread_present)
  then show "\<exists>d w'. parseQRCode env w qr = (ParseSuccess d, w') \<and> obj_get d k = Some v"
    using p by blast
qed

text \<open>
  The theorem at a code of two parts, at a code of an unknown type, and at a well-formed
  code: when the portal returns the vendor's name, when the portal rejects the lookup, and
  when the portal's details carry a lot number of their own.
\<close>

theorem parse_rejects_or_splits_witness:
  "length (js_split CHR ''-'' ''RC-L1'') < 5 \<and>
   (\<exists>msg. parseQRCode env_found qr_world0 ''RC-L1'' = (ParseFailure msg, qr_world0)) \<and>
   js_split CHR ''-'' ''XX-L1-20240101-VND001-00001'' ! 0 \<notin> set validTypes \<and>
   (\<exists>msg. parseQRCode env_found qr_world0 ''XX-L1-20240101-VND001-00001'' = (ParseFailure msg, qr_world0)) \<and>
   5 \<le> length (js_split CHR ''-'' ''RC-L1-20240101-VND001-00001'') \<and>
   js_split CHR ''-'' ''RC-L1-20240101-VND001-00001'' ! 0 \<in> set validTypes \<and>
   (\<exists>d w'. parseQRCode env_found qr_world0 ''RC-L1-20240101-VND001-00001'' = (ParseSuccess d, w') \<and>
      map (obj_get d) parsedKeys =
        [Some (JStr ''RC''), Some (JStr ''L1''), Some (JStr ''20240101''), Some (JStr ''VND001''),
         Some (JStr ''00001'')]) \<and>
   qe_lookup env_rejected = LookupRejected ''Network Error'' \<and>
   (\<exists>d w'. parseQRCode env_rejected qr_world0 ''RC-L1-20240101-VND001-00001'' = (ParseSuccess d, w') \<and>
      map (obj_get d) parsedKeys =
        [Some (JStr ''RC''), Some (JStr ''L1''), Some (JStr ''20240101''), Some (JStr ''VND001''),
         Some (JStr ''00001'')]) \<and>
   (\<exists>d w'. parseQRCode env_override qr_world0 ''RC-L1-20240101-VND001-00001'' = (ParseSuccess d, w') \<and>
      map (obj_get d) parsedKeys =
        [Some (JStr ''RC''), Some (JStr ''LOT-OF-PORTAL''), Some (JStr ''20240101''),
         Some (JStr ''VND001''), Some (JStr ''00001'')]) \<and>
   \<not> getFails qr_world0 ''authToken'' \<and>
   qe_lookup env_found = Found [(''vendorName'', JStr ''Bharat Steel Industries'')] \<and>
   (\<exists>d w'. parseQRCode env_found qr_world0 ''RC-L1-20240101-VND001-00001'' = (ParseSuccess d, w') \<and>
      obj_get d ''vendorName'' = Some (JStr ''Bharat Steel Industries''))"
proof -
  let ?q = "''RC-L1-20240101-VND001-00001''"
  have s: "length (js_split CHR ''-'' ''RC-L1'') < 5" by simp
  have t: "js_split CHR ''-'' ''XX-L1-20240101-VND001-00001'' ! 0 \<notin> set validTypes"
    by (simp add: validTypes_def)
  have q: "js_split CHR ''-'' ?q = [''RC'', ''L1'', ''20240101'', ''VND001'', ''00001'']" by simp
  have v: "5 \<le> length (js_split CHR ''-'' ?q)" "js_split CHR ''-'' ?q ! 0 \<in> set validTypes"
    unfolding q by (simp_all add: validTypes_def)
  have o: "\<not> getFails qr_world0 ''authToken''"
    "qe_lookup env_found = Found [(''vendorName'', JStr ''Bharat Steel Industries'')]"
    "qe_lookup env_override = Found [(''lotNumber'', JStr ''LOT-OF-PORTAL'')]"
    "qe_lookup env_rejected = LookupRejected ''Network Error''"
    by (simp_all add: qr_world0_def env_found_def env_override_def env_rejected_def)
  have a: "\<exists>msg. parseQRCode env_found qr_world0 ''RC-L1'' = (ParseFailure msg, qr_world0)"
    using parse_rejects_or_splits [of "''RC-L1''" env_found qr_world0] s by blast
  have b: "\<exists>msg. parseQRCode env_found qr_world0 ''XX-L1-20240101-VND001-00001'' =
             (ParseFailure msg, qr_world0)"
    using parse_rejects_or_splits [of "''XX-L1-20240101-VND001-00001''" env_found qr_world0] t
    by blast
  have c: "\<exists>d w'. parseQRCode env_found qr_world0 ?q = (ParseSuccess d, w') \<and>
      map (obj_get d) parsedKeys =
        [Some (JStr ''RC''), Some (JStr ''L1''), Some (JStr ''20240101''), Some (JStr ''VND001''),
         Some (JStr ''00001'')]"
  proof -
    from parse_rejects_or_splits [of ?q env_found qr_world0] v o obtain details d w' where
      p: "parseQRCode env_found qr_world0 ?q = (ParseSuccess d, w')"
      and m: "map (obj_get d) parsedKeys =
           map (\<lambda>i. if parsedKeys ! i \<in> fst ` set details
                     then map_of (rev details) (parsedKeys ! i)
                     else Some (JStr (js_split CHR ''-'' ?q ! i))) [0, 1, 2, 3, 4]"
      and e: "details = [(''vendorName'', JStr ''Bharat Steel Industries'')]"
      by blast
    show ?thesis using p m unfolding e q by (simp add: parsedKeys_def)
  qed
  have c2: "\<exists>d w'. parseQRCode env_rejected qr_world0 ?q = (ParseSuccess d, w') \<and>
      map (obj_get d) parsedKeys =
        [Some (JStr ''RC''), Some (JStr ''L1''), Some (JStr ''20240101''), Some (JStr ''VND001''),
         Some (JStr ''00001'')]"
  proof -
    from parse_rejects_or_splits [of ?q env_rejected qr_world0] v o obtain d w' where
      p: "parseQRCode env_rejected qr_world0 ?q = (ParseSuccess d, w')"
      and m: "map (obj_get d) parsedKeys =
           map (\<lambda>i. Some (JStr (js_split CHR ''-'' ?q ! i))) [0, 1, 2, 3, 4]"
      by blast
    show ?thesis using p m unfolding q by simp
  qed
  have c3: "\<exists>d w'. parseQRCode env_override qr_world0 ?q = (ParseSuccess d, w') \<and>
      map (obj_get d) parsedKeys =
        [Some (JStr ''RC''), Some (JStr ''LOT-OF-PORTAL''), Some (JStr ''20240101''),
         Some (JStr ''VND001''), Some (JStr ''00001'')]"
  proof -
    from parse_rejects_or_splits [of ?q env_override qr_world0] v o obtain details d w' where
      p: "parseQRCode env_override qr_world0 ?q = (ParseSuccess d, w')"
      and m: "map (obj_get d) parsedKeys =
           map (\<lambda>i. if parsedKeys ! i \<in> fst ` set details
                     then map_of (rev details) (parsedKeys ! i)
                     else Some (JStr (js_split CHR ''-'' ?q ! i))) [0, 1, 2, 3, 4]"
      and e: "details = [(''lotNumber'', JStr ''LOT-OF-PORTAL'')]"
      by blast
    show ?thesis using p m unfolding e q by (simp add: parsedKeys_def)
  qed
  have o': "distinct (map fst [(''vendorName'', JStr ''Bharat Steel Industries'')])"
    "(''vendorName'', JStr ''Bharat Steel Industries'') \<in> set [(''vendorName'', JStr ''Bharat Steel Industries'')]"
    by simp_all
  have e: "\<exists>d w'. parseQRCode env_found qr_world0 ?q = (ParseSuccess d, w') \<and>
      obj_get d ''vendorName'' = Some (JStr ''Bharat Steel Industries'')"
    using parse_rejects_or_splits [of ?q env_found qr_world0
            "[(''vendorName'', JStr ''Bharat Steel Industries'')]" "''vendorName''"
            "JStr ''Bharat Steel Industries''"] v o o'
    by blast
  from s t v a b c c2 c3 o e show ?thesis by blast
qed

text \<open>
  The claim as the specification words it: for an accepted code the five properties are
  the parts. Here the portal's details carry a \<^verbatim>\<open>lotNumber\<close>, and the result has the portal's
  lot number, not the second part of the code.
\<close>

theorem parse_override_counterexample:
  "js_split CHR ''-'' ''RC-L1-20240101-VND001-00001'' ! 1 = ''L1'' \<and>
   (\<exists>d w'. parseQRCode env_override qr_world0 ''RC-L1-20240101-VND001-00001'' = (ParseSuccess d, w') \<and>
      obj_get d ''lotNumber'' = Some (JStr ''LOT-OF-PORTAL''))"
  by (simp add: parseQRCode_def env_override_def qr_world0_def getFittingDetails_def validTypes_def
        obj_spread_def obj_get_def Let_def)

section \<open>C10: scores stay within 0 and 100\<close>

lemma clamp_bounds: "0 \<le> max 0 (min 100 (x :: int)) \<and> max 0 (min 100 x) \<le> 100"
  by simp

text \<open>
  Claim C10. Whatever the inspection form holds, the quality score is an integer between 0
  and 100 inclusive; and whatever the fitting data, the date parser and the clock, the base
  performance score is an integer between 0 and 100 inclusive.
\<close>

theorem scores_clamped:
  "0 \<le> calculateQualityScore d \<and> calculateQualityScore d \<le> 100 \<and>
   0 \<le> calculateBaseScore dateParse now fd \<and> calculateBaseScore dateParse now fd \<le> 100"
  unfolding calculateQualityScore_def calculateBaseScore_def Let_def
  using clamp_bounds by blast

end
